theory Spec2Isabelle
  imports Complex_Main "HOL-Library.Log_Nat"
begin

section \<open>Go values shared by the packages\<close>

text \<open>
  A Go \<open>error\<close> value. \<open>fmt.Errorf\<close> with plain verbs gives an \<open>ErrorString\<close>;
  \<open>fmt.Errorf("prefix: %w", err)\<close> gives an \<open>ErrorWrap\<close> whose text is the prefix
  followed by the text of the wrapped error. A nil error is \<open>None\<close> of
  \<open>go_error option\<close>.
\<close>

datatype go_error = ErrorString string | ErrorWrap string go_error

fun Error_text :: "go_error \<Rightarrow> string" where
  "Error_text (ErrorString s) = s"
| "Error_text (ErrorWrap p e) = p @ Error_text e"

fun Unwrap :: "go_error \<Rightarrow> go_error option" where
  "Unwrap (ErrorString s) = None"
| "Unwrap (ErrorWrap p e) = Some e"

text \<open>
  \<open>fmt.Errorf(prefix + "%w", err)\<close> where \<open>err\<close> may be nil: the verb then prints
  \<open>%!w(<nil>)\<close> and nothing is wrapped.
\<close>

definition Errorf_w :: "string \<Rightarrow> go_error option \<Rightarrow> go_error" where
  "Errorf_w p err = (case err of None \<Rightarrow> ErrorString (p @ ''%!w(<nil>)'') | Some e \<Rightarrow> ErrorWrap p e)"

text \<open>
  Go's \<open>int\<close> and \<open>int64\<close> are read as mathematical integers in the 64-bit range;
  \<open>wrap64\<close> is the two's-complement wrap-around of an arithmetic result.
\<close>

definition wrap64 :: "int \<Rightarrow> int" where
  "wrap64 x = (x + 9223372036854775808) mod 18446744073709551616 - 9223372036854775808"

text \<open>The \<open>%d\<close> verb of \<open>fmt\<close>: decimal digits, with a minus sign for a negative number.\<close>

definition digit :: "nat \<Rightarrow> char" where
  "digit d = ''0123456789'' ! d"

fun decimal :: "nat \<Rightarrow> string" where
  "decimal n = (if n < 10 then [digit n] else decimal (n div 10) @ [digit (n mod 10)])"

declare decimal.simps [simp del]

definition sprint_d :: "int \<Rightarrow> string" where
  "sprint_d i = (if i < 0 then ''-'' @ decimal (nat (- i)) else decimal (nat i))"

text \<open>
  Integer division in Go truncates towards zero and the remainder has the sign of the
  dividend.
\<close>

definition tdiv :: "int \<Rightarrow> int \<Rightarrow> int" where
  "tdiv a b = sgn a * sgn b * (\<bar>a\<bar> div \<bar>b\<bar>)"

definition tmod :: "int \<Rightarrow> int \<Rightarrow> int" where
  "tmod a b = a - b * tdiv a b"

text \<open>
  A \<open>float64\<close> is the rational it stands for. \<open>float64 x\<close> is the result of an
  arithmetic operation whose exact value is \<open>x\<close>: the nearest value with a 53-bit
  significand, ties to the even one (for magnitudes in the normal range of the format).
  The conversions \<open>int(x)\<close> and \<open>int64(x)\<close> discard the fraction; outside the int64
  range the Go result depends on the platform, and the model has the one of amd64, the
  smallest int64.
\<close>

definition pow2 :: "int \<Rightarrow> rat" where
  "pow2 e = (if 0 \<le> e then 2 ^ nat e else 1 / 2 ^ nat (- e))"

definition round_to_even :: "rat \<Rightarrow> int" where
  "round_to_even x =
     (let f = \<lfloor>x\<rfloor>; r = x - of_int f
      in if r < 1 / 2 then f else if 1 / 2 < r then f + 1 else if even f then f else f + 1)"

definition float64 :: "rat \<Rightarrow> rat" where
  "float64 x =
     (if x = 0 then 0
      else
        (let (a, b) = quotient_of \<bar>x\<bar>;
             e = bitlen a - bitlen b;
             e = (if pow2 e \<le> \<bar>x\<bar> then e else e - 1);
             ulp = pow2 (e - 52)
         in sgn x * of_int (round_to_even (\<bar>x\<bar> / ulp)) * ulp))"

definition int_of_float64 :: "rat \<Rightarrow> int" where
  "int_of_float64 x =
     (let i = (if 0 \<le> x then \<lfloor>x\<rfloor> else \<lceil>x\<rceil>)
      in if - 9223372036854775808 \<le> i \<and> i \<le> 9223372036854775807 then i
         else - 9223372036854775808)"

text \<open>
  A \<open>time.Time\<close> without a monotonic reading holds the seconds since January 1 of year
  1 as an int64 and the nanoseconds within the second; the model names the instant by
  its nanoseconds since the Unix epoch, \<open>Time_of_internal\<close> going from the one to the
  other. Arithmetic on the seconds wraps around. \<open>Before\<close> and \<open>After\<close> compare
  instants. The location is UTC (the runtime image carries no zone data), so a calendar
  day is 86400 seconds. The zero \<open>time.Time\<close> is January 1 of year 1, not the epoch.
\<close>

type_synonym Time = int

definition Time_of_internal :: "int \<Rightarrow> int \<Rightarrow> Time" where
  "Time_of_internal sec nsec = (sec - 62135596800) * 1000000000 + nsec"

text \<open>\<open>time.Unix(sec, nsec)\<close>: the nanoseconds are carried into the seconds, and the
  seconds moved to the internal epoch in int64 arithmetic.\<close>

definition Unix :: "int \<Rightarrow> int \<Rightarrow> Time" where
  "Unix sec nsec =
     Time_of_internal (wrap64 (sec + nsec div 1000000000 + 62135596800))
       (nsec mod 1000000000)"

definition Time_zero :: Time where
  "Time_zero = Time_of_internal 0 0"

definition Before :: "Time \<Rightarrow> Time \<Rightarrow> bool" where
  "Before t u = (t < u)"

definition After :: "Time \<Rightarrow> Time \<Rightarrow> bool" where
  "After t u = (t > u)"

text \<open>\<open>t.AddDate(0, 0, days)\<close>: the date of \<open>t\<close> with \<open>days\<close> added to the day of the
  month is turned back into seconds in 64-bit arithmetic, so the seconds of the result
  are those of \<open>t\<close> plus 86400 for each day, wrapped around.\<close>

definition AddDate_days :: "Time \<Rightarrow> int \<Rightarrow> Time" where
  "AddDate_days t days =
     Time_of_internal (wrap64 (t div 1000000000 + 62135596800 + days * 86400))
       (t mod 1000000000)"

text \<open>
  \<open>t.Sub(u)\<close> is a \<open>Duration\<close> (int64 nanoseconds) that saturates at the ends of the
  range (for a clock reading \<open>u\<close> of the common era). \<open>d.Hours()\<close> is the sum, in
  \<open>float64\<close>, of the whole hours and of the remaining nanoseconds divided by those of an
  hour; \<open>int(d.Hours() / 24)\<close> divides in \<open>float64\<close> and discards the fraction.
\<close>

definition Sub :: "Time \<Rightarrow> Time \<Rightarrow> int" where
  "Sub t u = max (- 9223372036854775808) (min 9223372036854775807 (t - u))"

definition Hours :: "int \<Rightarrow> rat" where
  "Hours d =
     float64 (of_int (tdiv d 3600000000000)
              + float64 (of_int (tmod d 3600000000000) / 3600000000000))"

definition days_of_Duration :: "int \<Rightarrow> int" where
  "days_of_Duration d = int_of_float64 (float64 (Hours d / 24))"

section \<open>Decoded JSON, as \<open>encoding/json\<close> stores it in \<open>interface{}\<close>\<close>

text \<open>
  A number is a \<open>float64\<close> (every finite one is a rational), an object is a
  \<open>map[string]interface{}\<close> given by the list of its entries, an array is a
  \<open>[]interface{}\<close>.
\<close>

datatype json =
    JNull
  | JBool bool
  | JNumber rat
  | JString string
  | JArray "json list"
  | JObject "(string \<times> json) list"

type_synonym MapClaims = "(string \<times> json) list"

text \<open>The type assertions \<open>x.(string)\<close>, \<open>x.(float64)\<close>, ...: \<open>None\<close> when \<open>ok\<close> is false.
  A key that is absent from the map gives the nil interface, on which each fails.\<close>

fun assert_string :: "json option \<Rightarrow> string option" where
  "assert_string (Some (JString s)) = Some s"
| "assert_string _ = None"

fun assert_float64 :: "json option \<Rightarrow> rat option" where
  "assert_float64 (Some (JNumber x)) = Some x"
| "assert_float64 _ = None"

fun assert_bool :: "json option \<Rightarrow> bool option" where
  "assert_bool (Some (JBool b)) = Some b"
| "assert_bool _ = None"

fun assert_map :: "json option \<Rightarrow> (string \<times> json) list option" where
  "assert_map (Some (JObject m)) = Some m"
| "assert_map _ = None"

fun assert_slice :: "json option \<Rightarrow> json list option" where
  "assert_slice (Some (JArray xs)) = Some xs"
| "assert_slice _ = None"

text \<open>\<open>if a, ok := x.(T); ok { r = f a r }\<close>: the statement that every field of
  \<open>parseLicense\<close> is decoded with.\<close>

definition if_ok :: "'a option \<Rightarrow> ('a \<Rightarrow> 'r \<Rightarrow> 'r) \<Rightarrow> 'r \<Rightarrow> 'r" where
  "if_ok x f r = (case x of None \<Rightarrow> r | Some a \<Rightarrow> f a r)"

section \<open>Package license: the data model\<close>

record PhoneHomeConfig =
  Enabled :: bool
  URL :: string
  IntervalHours :: int

record License =
  Issuer :: string
  Subject :: string
  IssuedAt :: Time
  ExpiresAt :: Time
  NotBefore :: Time
  LicenseID :: string
  CustomerID :: string
  CustomerName :: string
  ProductCode :: string
  ProductName :: string
  TierCode :: string
  TierName :: string
  ClusterID :: string
  ClusterName :: string
  Namespace :: string
  LicensedNodes :: int
  MaxNodes :: int
  NodeSelector :: "(string \<times> string) list option"
  Features :: "string list option"
  GracePeriodDays :: int
  WarningDays :: int
  PhoneHomeConfig :: PhoneHomeConfig

text \<open>\<open>&License{}\<close>: every field at its zero value (a nil map and a nil slice are \<open>None\<close>).\<close>

definition License_zero :: License where
  "License_zero =
     \<lparr>Issuer = [], Subject = [], IssuedAt = Time_zero, ExpiresAt = Time_zero,
      NotBefore = Time_zero, LicenseID = [], CustomerID = [], CustomerName = [],
      ProductCode = [], ProductName = [], TierCode = [], TierName = [], ClusterID = [],
      ClusterName = [], Namespace = [], LicensedNodes = 0, MaxNodes = 0,
      NodeSelector = None, Features = None, GracePeriodDays = 0, WarningDays = 0,
      PhoneHomeConfig = \<lparr>Enabled = False, URL = [], IntervalHours = 0\<rparr>\<rparr>"

record ValidationResult =
  Valid :: bool
  License :: "License option"
  Error :: "go_error option"
  Result_ExpiresAt :: Time
  DaysUntilExpiry :: int
  IsInGracePeriod :: bool
  NodeCount :: int
  Result_LicensedNodes :: int
  NodeCountValid :: bool
  NamespaceValid :: bool
  ActualNamespace :: string
  LicenseNamespace :: string
  SignatureValid :: bool
  ExpiryValid :: bool
  ValidationTime :: Time

definition ValidationResult_zero :: ValidationResult where
  "ValidationResult_zero =
     \<lparr>Valid = False, License = None, Error = None, Result_ExpiresAt = Time_zero,
      DaysUntilExpiry = 0, IsInGracePeriod = False, NodeCount = 0,
      Result_LicensedNodes = 0, NodeCountValid = False, NamespaceValid = False,
      ActualNamespace = [], LicenseNamespace = [], SignatureValid = False,
      ExpiryValid = False, ValidationTime = Time_zero\<rparr>"

section \<open>Package license: decoding the claims\<close>

text \<open>The entries of a decoded object whose values are strings: the loop
  \<open>for k, v := range m { if str, ok := v.(string); ok { out[k] = str } }\<close>.\<close>

fun string_entries :: "(string \<times> json) list \<Rightarrow> (string \<times> string) list" where
  "string_entries [] = []"
| "string_entries ((k, v) # m) =
     (case assert_string (Some v) of
        Some str \<Rightarrow> (k, str) # string_entries m
      | None \<Rightarrow> string_entries m)"

text \<open>The elements of a decoded array that are strings, in order: the loop that
  appends to \<open>license.Features\<close>.\<close>

fun string_elements :: "json list \<Rightarrow> string list" where
  "string_elements [] = []"
| "string_elements (f # fs) =
     (case assert_string (Some f) of
        Some str \<Rightarrow> str # string_elements fs
      | None \<Rightarrow> string_elements fs)"

text \<open>\<open>parseLicense\<close>, statement by statement. The Go function has the result type
  \<open>(*License, error)\<close>; its only \<open>return\<close> is \<open>return license, nil\<close>.\<close>

definition parseLicense :: "MapClaims \<Rightarrow> go_error + License" where
  "parseLicense claims =
     (let license = License_zero;
          license = if_ok (assert_string (map_of claims ''iss''))
                      (\<lambda>iss l. l\<lparr>Issuer := iss\<rparr>) license;
          license = if_ok (assert_string (map_of claims ''sub''))
                      (\<lambda>sub l. l\<lparr>Subject := sub\<rparr>) license;
          license = if_ok (assert_float64 (map_of claims ''iat''))
                      (\<lambda>iat l. l\<lparr>IssuedAt := Unix (int_of_float64 iat) 0\<rparr>) license;
          license = if_ok (assert_float64 (map_of claims ''exp''))
                      (\<lambda>exp l. l\<lparr>ExpiresAt := Unix (int_of_float64 exp) 0\<rparr>) license;
          license = if_ok (assert_float64 (map_of claims ''nbf''))
                      (\<lambda>nbf l. l\<lparr>NotBefore := Unix (int_of_float64 nbf) 0\<rparr>) license;
          license = if_ok (assert_string (map_of claims ''license_id''))
                      (\<lambda>licenseID l. l\<lparr>LicenseID := licenseID\<rparr>) license;
          license = if_ok (assert_string (map_of claims ''customer_id''))
                      (\<lambda>customerID l. l\<lparr>CustomerID := customerID\<rparr>) license;
          license = if_ok (assert_string (map_of claims ''customer_name''))
                      (\<lambda>customerName l. l\<lparr>CustomerName := customerName\<rparr>) license;
          license = if_ok (assert_string (map_of claims ''product_code''))
                      (\<lambda>productCode l. l\<lparr>ProductCode := productCode\<rparr>) license;
          license = if_ok (assert_string (map_of claims ''product_name''))
                      (\<lambda>productName l. l\<lparr>ProductName := productName\<rparr>) license;
          license = if_ok (assert_string (map_of claims ''tier_code''))
                      (\<lambda>tierCode l. l\<lparr>TierCode := tierCode\<rparr>) license;
          license = if_ok (assert_string (map_of claims ''tier_name''))
                      (\<lambda>tierName l. l\<lparr>TierName := tierName\<rparr>) license;
          license = if_ok (assert_string (map_of claims ''cluster_id''))
                      (\<lambda>clusterID l. l\<lparr>ClusterID := clusterID\<rparr>) license;
          license = if_ok (assert_string (map_of claims ''cluster_name''))
                      (\<lambda>clusterName l. l\<lparr>ClusterName := clusterName\<rparr>) license;
          license = if_ok (assert_string (map_of claims ''namespace''))
                      (\<lambda>namespace l. l\<lparr>Namespace := namespace\<rparr>) license;
          license = if_ok (assert_float64 (map_of claims ''licensed_nodes''))
                      (\<lambda>licensedNodes l. l\<lparr>LicensedNodes := int_of_float64 licensedNodes\<rparr>) license;
          license = if_ok (assert_float64 (map_of claims ''max_nodes''))
                      (\<lambda>maxNodes l. l\<lparr>MaxNodes := int_of_float64 maxNodes\<rparr>) license;
          license = if_ok (assert_float64 (map_of claims ''grace_period_days''))
                      (\<lambda>gracePeriodDays l. l\<lparr>GracePeriodDays := int_of_float64 gracePeriodDays\<rparr>) license;
          license = if_ok (assert_float64 (map_of claims ''warning_days''))
                      (\<lambda>warningDays l. l\<lparr>WarningDays := int_of_float64 warningDays\<rparr>) license;
          license = if_ok (assert_map (map_of claims ''node_selector''))
                      (\<lambda>nodeSelector l. l\<lparr>NodeSelector := Some (string_entries nodeSelector)\<rparr>) license;
          license = if_ok (assert_slice (map_of claims ''features''))
                      (\<lambda>features l. l\<lparr>Features := Some (string_elements features)\<rparr>) license;
          license = if_ok (assert_map (map_of claims ''phone_home''))
                      (\<lambda>phoneHome l.
                         (let cfg = PhoneHomeConfig l;
                              cfg = if_ok (assert_bool (map_of phoneHome ''enabled''))
                                      (\<lambda>enabled c. c\<lparr>Enabled := enabled\<rparr>) cfg;
                              cfg = if_ok (assert_string (map_of phoneHome ''url''))
                                      (\<lambda>url c. c\<lparr>URL := url\<rparr>) cfg;
                              cfg = if_ok (assert_float64 (map_of phoneHome ''interval_hours''))
                                      (\<lambda>interval c. c\<lparr>IntervalHours := int_of_float64 interval\<rparr>) cfg
                          in l\<lparr>PhoneHomeConfig := cfg\<rparr>)) license
      in Inr license)"

section \<open>The token library, as far as \<open>Validate\<close> drives it\<close>

text \<open>
  \<open>github.com/golang-jwt/jwt/v5\<close> is a dependency, not code of this repository. The
  model keeps its control flow and the Go types of its signing methods, on which the
  key function of \<open>Validate\<close> makes its type assertion, and leaves decoding and
  cryptography to the data of the token:
  \<^item> the text of a token is given by what the library's decoder finds in it: nothing
    (\<open>NotAToken\<close>, with the decoder's error) or a header, a claim set and a signature;
  \<^item> the signature is given by the pairs of an algorithm name and a public key under
    which the library's \<open>Verify\<close> accepts it over this header and claim set;
  \<^item> \<open>RegisteredClaimsOK\<close> is the verdict of the library's own check of the registered
    claims (\<open>exp\<close>, \<open>nbf\<close>, \<open>iat\<close>) against its own reading of the clock.
\<close>

datatype PublicKey = RSAPublicKey int int

datatype SigningMethod =
    SigningMethodRSA string
  | SigningMethodRSAPSS string
  | SigningMethodHMAC string
  | SigningMethodECDSA string
  | SigningMethodEd25519
  | signingMethodNone

fun Alg :: "SigningMethod \<Rightarrow> string" where
  "Alg (SigningMethodRSA name) = name"
| "Alg (SigningMethodRSAPSS name) = name"
| "Alg (SigningMethodHMAC name) = name"
| "Alg (SigningMethodECDSA name) = name"
| "Alg SigningMethodEd25519 = ''EdDSA''"
| "Alg signingMethodNone = ''none''"

text \<open>The methods the library registers, by the \<open>alg\<close> of the header.\<close>

definition GetSigningMethod :: "string \<Rightarrow> SigningMethod option" where
  "GetSigningMethod alg =
     (if alg \<in> set [''RS256'', ''RS384'', ''RS512''] then Some (SigningMethodRSA alg)
      else if alg \<in> set [''PS256'', ''PS384'', ''PS512''] then Some (SigningMethodRSAPSS alg)
      else if alg \<in> set [''HS256'', ''HS384'', ''HS512''] then Some (SigningMethodHMAC alg)
      else if alg \<in> set [''ES256'', ''ES384'', ''ES512''] then Some (SigningMethodECDSA alg)
      else if alg = ''EdDSA'' then Some SigningMethodEd25519
      else if alg = ''none'' then Some signingMethodNone
      else None)"

record TokenParts =
  Header :: "(string \<times> json) list"
  Claims :: MapClaims
  AcceptedUnder :: "(string \<times> PublicKey) list"
  RegisteredClaimsOK :: bool

datatype TokenText = NotAToken go_error | TokenText TokenParts

record Token =
  Method :: SigningMethod
  Token_Header :: "(string \<times> json) list"
  Token_Claims :: MapClaims
  Token_Valid :: bool

text \<open>The library's sentinel errors. Its errors print the sentinel first, then the
  message, then the cause; where the cause comes out of decoding or cryptography the
  sentinel stands alone.\<close>

definition ErrTokenSignatureInvalid :: go_error where
  "ErrTokenSignatureInvalid = ErrorString ''token signature is invalid''"

definition ErrTokenInvalidClaims :: go_error where
  "ErrTokenInvalidClaims = ErrorString ''token has invalid claims''"

text \<open>
  \<open>Parser.ParseUnverified\<close>: decode the segments, then look the method up under the
  header's \<open>alg\<close>; a header without a string \<open>alg\<close>, or with one that is not
  registered, is an error.
\<close>

definition ParseUnverified :: "TokenText \<Rightarrow> go_error + Token" where
  "ParseUnverified tokenString =
     (case tokenString of
        NotAToken e \<Rightarrow> Inl (ErrorWrap ''token is malformed: '' e)
      | TokenText parts \<Rightarrow>
          (case assert_string (map_of (Header parts) ''alg'') of
             None \<Rightarrow>
               Inl (ErrorString ''token is unverifiable: signing method (alg) is unspecified'')
           | Some alg \<Rightarrow>
               (case GetSigningMethod alg of
                  None \<Rightarrow>
                    Inl (ErrorString
                           ''token is unverifiable: signing method (alg) is unavailable'')
                | Some m \<Rightarrow>
                    Inr \<lparr>Method = m, Token_Header = Header parts,
                         Token_Claims = Claims parts, Token_Valid = False\<rparr>)))"

text \<open>
  \<open>jwt.ParseWithClaims(tokenString, claims, keyFunc)\<close> with no parser option: the
  unverified parse, the key function, the signature under the key it returned, the
  registered claims, and only then \<open>token.Valid = true\<close>.
\<close>

definition ParseWithClaims ::
  "TokenText \<Rightarrow> (Token \<Rightarrow> go_error + PublicKey) \<Rightarrow> go_error + Token" where
  "ParseWithClaims tokenString keyFunc =
     (case ParseUnverified tokenString of
        Inl e \<Rightarrow> Inl e
      | Inr token \<Rightarrow>
          (case keyFunc token of
             Inl e \<Rightarrow> Inl (ErrorWrap ''token is unverifiable: error while executing keyfunc: '' e)
           | Inr key \<Rightarrow>
               (case tokenString of
                  NotAToken e \<Rightarrow> Inl e
                | TokenText parts \<Rightarrow>
                    if (Alg (Method token), key) \<notin> set (AcceptedUnder parts)
                    then Inl ErrTokenSignatureInvalid
                    else if \<not> RegisteredClaimsOK parts
                    then Inl ErrTokenInvalidClaims
                    else Inr (token\<lparr>Token_Valid := True\<rparr>))))"

section \<open>Package license: \<open>Validator.Validate\<close>\<close>

record Validator =
  publicKey :: PublicKey

text \<open>The key function that \<open>Validate\<close> passes to the library: the type assertion
  \<open>token.Method.(*jwt.SigningMethodRSA)\<close>, then the validator's own key. \<open>%v\<close> of the
  header's \<open>alg\<close> prints the string (the method was found under it).\<close>

definition keyFunc :: "Validator \<Rightarrow> Token \<Rightarrow> go_error + PublicKey" where
  "keyFunc v token =
     (case Method token of
        SigningMethodRSA name \<Rightarrow> Inr (publicKey v)
      | _ \<Rightarrow>
          Inl (ErrorString (''unexpected signing method: '' @
                 (case assert_string (map_of (Token_Header token) ''alg'') of
                    Some alg \<Rightarrow> alg | None \<Rightarrow> ''<nil>''))))"

text \<open>
  \<open>Validate\<close> reads the clock twice: \<open>t0\<close> for \<open>ValidationTime\<close> and \<open>now\<close> for the
  temporal checks. The assertion \<open>token.Claims.(*jwt.MapClaims)\<close> holds for the claims
  object that \<open>Validate\<close> itself passed in, so \<open>!ok || !token.Valid\<close> is
  \<open>!token.Valid\<close>.
\<close>

definition Validate ::
  "Validator \<Rightarrow> TokenText \<Rightarrow> int \<Rightarrow> string \<Rightarrow> Time \<Rightarrow> Time \<Rightarrow> ValidationResult" where
  "Validate v licenseJWT actualNodeCount actualNamespace t0 now =
     (let result = ValidationResult_zero
            \<lparr>ValidationTime := t0, NodeCount := actualNodeCount,
             ActualNamespace := actualNamespace\<rparr>
      in case ParseWithClaims licenseJWT (keyFunc v) of
           Inl err \<Rightarrow>
             result\<lparr>Error := Some (ErrorWrap ''JWT validation failed: '' err), Valid := False\<rparr>
         | Inr token \<Rightarrow>
             (let result = result\<lparr>SignatureValid := Token_Valid token\<rparr>
              in if \<not> Token_Valid token
                 then result\<lparr>Error := Some (ErrorString ''invalid JWT claims''), Valid := False\<rparr>
                 else
                   (case parseLicense (Token_Claims token) of
                      Inl err \<Rightarrow>
                        result\<lparr>Error := Some (ErrorWrap ''failed to parse license: '' err),
                               Valid := False\<rparr>
                    | Inr license \<Rightarrow>
                        (let result = result
                               \<lparr>License := Some license,
                                Result_ExpiresAt := ExpiresAt license,
                                Result_LicensedNodes := LicensedNodes license,
                                LicenseNamespace := Namespace license\<rparr>;
                             result = result
                               \<lparr>DaysUntilExpiry := days_of_Duration (Sub (ExpiresAt license) now),
                                ExpiryValid := Before now (ExpiresAt license)\<rparr>;
                             gracePeriodEnd = AddDate_days (ExpiresAt license) (GracePeriodDays license);
                             result = result
                               \<lparr>IsInGracePeriod :=
                                  After now (ExpiresAt license) \<and> Before now gracePeriodEnd\<rparr>;
                             result = result
                               \<lparr>NodeCountValid := actualNodeCount \<le> LicensedNodes license\<rparr>;
                             result = result
                               \<lparr>NamespaceValid := (actualNamespace = Namespace license)\<rparr>;
                             result = result
                               \<lparr>Valid := SignatureValid result
                                  \<and> (ExpiryValid result \<or> IsInGracePeriod result)
                                  \<and> NodeCountValid result \<and> NamespaceValid result\<rparr>
                         in if \<not> NamespaceValid result
                            then result
                              \<lparr>Error := Some (ErrorString
                                 (''namespace mismatch: license is for namespace ''
                                  @ [CHR 0x27] @ Namespace license @ [CHR 0x27]
                                  @ '' but validator is running in ''
                                  @ [CHR 0x27] @ actualNamespace @ [CHR 0x27])),
                               Valid := False\<rparr>
                            else result))))"

section \<open>Package phonehome\<close>

record PhoneHomeRequest =
  Req_LicenseID :: string
  Req_ClusterID :: string
  Req_ClusterName :: string
  Req_NodeCount :: int
  Req_LicensedNodes :: int
  ValidationStatus :: string
  ValidationMessage :: string
  Req_DaysUntilExpiry :: int
  Req_IsInGracePeriod :: bool
  Req_ProductCode :: string
  Req_TierCode :: string
  Timestamp :: Time
  Metadata :: "(string \<times> string) list"

record PhoneHomeResponse =
  Status :: string
  Message :: string

record Client =
  serverURL :: string
  httpClient_Timeout :: int
  retries :: int

definition getValidationStatus :: "ValidationResult \<Rightarrow> string" where
  "getValidationStatus result =
     (if Valid result then ''valid''
      else if IsInGracePeriod result then ''grace_period''
      else if \<not> ExpiryValid result then ''expired''
      else if \<not> NodeCountValid result then ''node_limit_exceeded''
      else if \<not> SignatureValid result then ''invalid_signature''
      else ''invalid'')"

definition getValidationMessage :: "ValidationResult \<Rightarrow> string" where
  "getValidationMessage result =
     (if Valid result then ''License is valid''
      else if Error result \<noteq> None then Error_text (the (Error result))
      else if IsInGracePeriod result
      then ''License expired but in grace period ('' @ sprint_d (wrap64 (- DaysUntilExpiry result))
           @ '' days until grace period ends)''
      else if \<not> ExpiryValid result then ''License has expired''
      else if \<not> NodeCountValid result
      then ''Node count ('' @ sprint_d (NodeCount result) @ '') exceeds licensed nodes (''
           @ sprint_d (Result_LicensedNodes result) @ '')''
      else if \<not> SignatureValid result then ''Invalid license signature''
      else ''License validation failed'')"

text \<open>
  What one call of \<open>sendRequest\<close> meets: the request cannot be built, the transport
  fails, or a response arrives with a status code and a body that decodes or not.
  (\<open>json.Marshal\<close> of a \<open>PhoneHomeRequest\<close> does not fail.)
\<close>

datatype HTTPOutcome =
    NewRequestFailed go_error
  | DoFailed go_error
  | Responded int "go_error + PhoneHomeResponse"

definition sendRequest :: "HTTPOutcome \<Rightarrow> go_error option" where
  "sendRequest outcome =
     (case outcome of
        NewRequestFailed err \<Rightarrow> Some (ErrorWrap ''failed to create request: '' err)
      | DoFailed err \<Rightarrow> Some (ErrorWrap ''failed to send request: '' err)
      | Responded StatusCode body \<Rightarrow>
          if StatusCode < 200 \<or> StatusCode \<ge> 300
          then Some (ErrorString (''server returned error status: '' @ sprint_d StatusCode))
          else (case body of
                  Inl err \<Rightarrow> Some (ErrorWrap ''failed to decode response: '' err)
                | Inr phoneHomeResp \<Rightarrow>
                    if Status phoneHomeResp \<noteq> ''success'' \<and> Status phoneHomeResp \<noteq> ''ok''
                    then Some (ErrorString (''phone home failed: '' @ Message phoneHomeResp))
                    else None))"

text \<open>
  The world around one call of \<open>SendPhoneHome\<close>: \<open>respond a\<close> is what the request of
  attempt \<open>a\<close> meets; \<open>ctxDone a\<close> is the outcome of the \<open>select\<close> before attempt \<open>a\<close>:
  \<open>Some\<close> of \<open>ctx.Err()\<close> when the \<open>ctx.Done()\<close> case is taken, \<open>None\<close> when the timer
  of \<open>time.After\<close> fires first.
\<close>

record Network =
  respond :: "int \<Rightarrow> HTTPOutcome"
  ctxDone :: "int \<Rightarrow> go_error option"

text \<open>What the call does, in order: a wait that ran to its end (with its duration in
  nanoseconds), a wait cut short by the context, a request sent.\<close>

datatype Event = Slept int | Aborted int | Sent PhoneHomeRequest

text \<open>\<open>time.Duration(attempt*attempt) * time.Second\<close>, in int and int64 arithmetic.\<close>

definition backoff :: "int \<Rightarrow> int" where
  "backoff attempt = wrap64 (wrap64 (attempt * attempt) * 1000000000)"

text \<open>The \<open>for\<close> loop of \<open>SendPhoneHome\<close>, from the value of \<open>attempt\<close> on, with
  \<open>lastErr\<close> and the events so far (\<open>attempt++\<close> stays in range below the largest int).\<close>

function send_loop ::
  "Client \<Rightarrow> Network \<Rightarrow> PhoneHomeRequest \<Rightarrow> int \<Rightarrow> go_error option \<Rightarrow> Event list
     \<Rightarrow> go_error option \<times> Event list" where
  "send_loop c net req attempt lastErr events =
     (if attempt \<le> retries c then
        (if attempt > 0 \<and> ctxDone net attempt \<noteq> None
         then (ctxDone net attempt, events @ [Aborted (backoff attempt)])
         else
           (let events = (if attempt > 0 then events @ [Slept (backoff attempt)] else events);
                err = sendRequest (respond net attempt);
                events = events @ [Sent req]
            in if err = None then (None, events)
               else send_loop c net req (attempt + 1) err events))
      else
        (Some (Errorf_w (''phone home failed after '' @ sprint_d (retries c) @ '' retries: '')
                 lastErr),
         events))"
  by pat_completeness auto
termination
  by (relation "measure (\<lambda>(c, net, req, attempt, lastErr, events). nat (retries c + 1 - attempt))")
    auto

declare send_loop.simps [simp del]

text \<open>The number of requests among the events of a call.\<close>

fun is_Sent :: "Event \<Rightarrow> bool" where
  "is_Sent (Sent req) = True"
| "is_Sent _ = False"

definition tries :: "Event list \<Rightarrow> nat" where
  "tries events = length (filter is_Sent events)"

text \<open>The request that \<open>SendPhoneHome\<close> prepares from the result and its license;
  \<open>now\<close> is the clock reading for \<open>Timestamp\<close>.\<close>

definition prepare_request :: "Time \<Rightarrow> ValidationResult \<Rightarrow> License \<Rightarrow> PhoneHomeRequest" where
  "prepare_request now validationResult lic =
     \<lparr>Req_LicenseID = LicenseID lic,
      Req_ClusterID = ClusterID lic,
      Req_ClusterName = ClusterName lic,
      Req_NodeCount = NodeCount validationResult,
      Req_LicensedNodes = Result_LicensedNodes validationResult,
      ValidationStatus = getValidationStatus validationResult,
      ValidationMessage = getValidationMessage validationResult,
      Req_DaysUntilExpiry = DaysUntilExpiry validationResult,
      Req_IsInGracePeriod = IsInGracePeriod validationResult,
      Req_ProductCode = ProductCode lic,
      Req_TierCode = TierCode lic,
      Timestamp = now,
      Metadata =
        [(''customer_id'', CustomerID lic),
         (''customer_name'', CustomerName lic),
         (''product_name'', ProductName lic),
         (''tier_name'', TierName lic)]\<rparr>"

definition SendPhoneHome ::
  "Client \<Rightarrow> Network \<Rightarrow> Time \<Rightarrow> ValidationResult option \<Rightarrow> go_error option \<times> Event list" where
  "SendPhoneHome c net now validationResult =
     (case validationResult of
        None \<Rightarrow> (Some (ErrorString ''validation result or license is nil''), [])
      | Some result \<Rightarrow>
          (case License result of
             None \<Rightarrow> (Some (ErrorString ''validation result or license is nil''), [])
           | Some lic \<Rightarrow> send_loop c net (prepare_request now result lic) 0 None []))"

section \<open>Package nodes and the validation cycle of \<open>cmd/validator\<close>\<close>

text \<open>\<open>Counter.CountLabeledNodes\<close>, over the outcome of the \<open>List\<close> call of the cluster
  API: an error, or the items that match the label selector.\<close>

definition CountLabeledNodes :: "go_error + string list \<Rightarrow> int \<times> go_error option" where
  "CountLabeledNodes listed =
     (case listed of
        Inl err \<Rightarrow> (0, Some (ErrorWrap ''failed to list nodes: '' err))
      | Inr items \<Rightarrow> (int (length items), None))"

record Config =
  LicenseSecretName :: string
  LicenseSecretNamespace :: string
  LicenseSecretKey :: string
  NodeLabelKey :: string
  NodeLabelValue :: string
  LicenseServerURL :: string
  PhoneHomeEnabled :: bool
  PhoneHomeInterval :: int
  PhoneHomeRetries :: int
  PhoneHomeTimeout :: int
  ValidationInterval :: int
  FailOpen :: bool
  Config_GracePeriodDays :: int
  HTTPPort :: int
  MetricsPort :: int
  HealthCheckInterval :: int
  LogLevel :: string
  LogFormat :: string

record ValidatorService =
  cfg :: Config
  validator :: Validator
  phoneHomeClient :: "Client option"
  currentResult :: "ValidationResult option"

text \<open>
  What one cycle reads from outside: the secret (an error, or its \<open>Data\<close> with the
  bytes under each key given as token text), the node list, and the clock (\<open>clock0\<close>
  where the cycle first reads it, \<open>clock1\<close> at the second reading inside \<open>Validate\<close>).
\<close>

record Cycle =
  secretGet :: "go_error + (string \<times> TokenText) list"
  nodeList :: "go_error + string list"
  clock0 :: Time
  clock1 :: Time

text \<open>\<open>runValidation\<close>: the new state of the service, and the result handed to the
  phone-home goroutine when one is started (log lines are left out).\<close>

definition runValidation ::
  "ValidatorService \<Rightarrow> Cycle \<Rightarrow> ValidatorService \<times> ValidationResult option" where
  "runValidation s cyc =
     (case secretGet cyc of
        Inl err \<Rightarrow>
          (s\<lparr>currentResult := Some (ValidationResult_zero
                \<lparr>Valid := False,
                 Error := Some (ErrorWrap ''failed to read license secret: '' err),
                 ValidationTime := clock0 cyc\<rparr>)\<rparr>, None)
      | Inr Data \<Rightarrow>
          (case map_of Data (LicenseSecretKey (cfg s)) of
             None \<Rightarrow>
               (s\<lparr>currentResult := Some (ValidationResult_zero
                     \<lparr>Valid := False,
                      Error := Some (ErrorString ''license key not found in secret''),
                      ValidationTime := clock0 cyc\<rparr>)\<rparr>, None)
           | Some licenseJWT \<Rightarrow>
               (let (nodeCount, err) = CountLabeledNodes (nodeList cyc);
                    nodeCount = (if err \<noteq> None then 0 else nodeCount);
                    result = Validate (validator s) licenseJWT nodeCount
                               (LicenseSecretNamespace (cfg s)) (clock0 cyc) (clock1 cyc);
                    s = s\<lparr>currentResult := Some result\<rparr>
                in if PhoneHomeEnabled (cfg s) \<and> phoneHomeClient s \<noteq> None
                      \<and> License result \<noteq> None
                   then (s, Some result)
                   else (s, None))))"

section \<open>Sample data\<close>

text \<open>A token whose header names \<open>alg\<close> and whose signature the library accepts
  under \<open>alg\<close> and \<open>key\<close>, with its registered claims in order.\<close>

definition signed_token :: "string \<Rightarrow> PublicKey \<Rightarrow> MapClaims \<Rightarrow> TokenText" where
  "signed_token alg key claims =
     TokenText \<lparr>Header = [(''alg'', JString alg), (''typ'', JString ''JWT'')],
                Claims = claims, AcceptedUnder = [(alg, key)], RegisteredClaimsOK = True\<rparr>"

definition sample_key :: PublicKey where
  "sample_key = RSAPublicKey 3233 65537"

definition sample_validator :: Validator where
  "sample_validator = \<lparr>publicKey = sample_key\<rparr>"

text \<open>Claims of a license for 5 nodes in namespace \<open>prod\<close> that expires at second
  2000000000, with the given \<open>licensed_nodes\<close> and \<open>grace_period_days\<close> values.\<close>

definition sample_claims :: "json \<Rightarrow> json \<Rightarrow> MapClaims" where
  "sample_claims nodes grace =
     [(''iss'', JString ''es''), (''exp'', JNumber 2000000000),
      (''license_id'', JString ''lic-1''), (''namespace'', JString ''prod''),
      (''licensed_nodes'', nodes), (''grace_period_days'', grace)]"

definition sample_license :: "int \<Rightarrow> int \<Rightarrow> License" where
  "sample_license nodes grace =
     License_zero\<lparr>Issuer := ''es'', ExpiresAt := Unix 2000000000 0, LicenseID := ''lic-1'',
       Namespace := ''prod'', LicensedNodes := nodes, GracePeriodDays := grace\<rparr>"

text \<open>Claims of a license for 5 nodes in namespace \<open>prod\<close> with no \<open>exp\<close> claim, which
  the library accepts at any time, with the given \<open>grace_period_days\<close> value.\<close>

definition perpetual_claims :: "json \<Rightarrow> MapClaims" where
  "perpetual_claims grace =
     [(''iss'', JString ''es''), (''license_id'', JString ''lic-2''),
      (''namespace'', JString ''prod''), (''licensed_nodes'', JNumber 5),
      (''grace_period_days'', grace)]"

definition perpetual_license :: "int \<Rightarrow> License" where
  "perpetual_license grace =
     License_zero\<lparr>Issuer := ''es'', LicenseID := ''lic-2'', Namespace := ''prod'',
       LicensedNodes := 5, GracePeriodDays := grace\<rparr>"

text \<open>The header's \<open>alg\<close> as the library reads it: a string, or nothing.\<close>

definition header_alg :: "TokenText \<Rightarrow> string option" where
  "header_alg licenseJWT =
     (case licenseJWT of
        NotAToken e \<Rightarrow> None
      | TokenText parts \<Rightarrow> assert_string (map_of (Header parts) ''alg''))"

text \<open>A result in its grace period with the namespace error attached: \<open>Validate\<close>
  attaches that error and leaves the grace-period flag as it is.\<close>

definition grace_mismatch_result :: ValidationResult where
  "grace_mismatch_result =
     \<lparr>Valid = False, License = Some (sample_license 5 7),
      Error = Some (ErrorString
                (''namespace mismatch: license is for namespace 'prod' ''
                 @ ''but validator is running in 'staging'' @ [CHR 0x27])),
      Result_ExpiresAt = Unix 2000000000 0, DaysUntilExpiry = - 1, IsInGracePeriod = True,
      NodeCount = 3, Result_LicensedNodes = 5, NodeCountValid = True,
      NamespaceValid = False, ActualNamespace = ''staging'', LicenseNamespace = ''prod'',
      SignatureValid = True, ExpiryValid = False, ValidationTime = Unix 2000086399 0\<rparr>"

text \<open>A result in its grace period, over its node limit, with no error attached.\<close>

definition grace_overlimit_result :: ValidationResult where
  "grace_overlimit_result =
     \<lparr>Valid = False, License = Some (sample_license 5 7), Error = None,
      Result_ExpiresAt = Unix 2000000000 0, DaysUntilExpiry = - 1, IsInGracePeriod = True,
      NodeCount = 9, Result_LicensedNodes = 5, NodeCountValid = False,
      NamespaceValid = True, ActualNamespace = ''prod'', LicenseNamespace = ''prod'',
      SignatureValid = True, ExpiryValid = False, ValidationTime = Unix 2000086399 0\<rparr>"

definition sample_client :: "int \<Rightarrow> Client" where
  "sample_client n =
     \<lparr>serverURL = ''https://licenses.example'', httpClient_Timeout = 30000000000,
      retries = n\<rparr>"

text \<open>An endpoint that answers every request with status 503, and a context that is
  never done.\<close>

definition failing_network :: Network where
  "failing_network =
     \<lparr>respond = (\<lambda>a. Responded 503 (Inl (ErrorString ''EOF''))), ctxDone = (\<lambda>a. None)\<rparr>"

text \<open>The same endpoint, with the context cancelled during the second wait.\<close>

definition cancelled_network :: Network where
  "cancelled_network =
     \<lparr>respond = (\<lambda>a. Responded 503 (Inl (ErrorString ''EOF''))),
      ctxDone = (\<lambda>a. if a = 2 then Some (ErrorString ''context canceled'') else None)\<rparr>"

definition sample_config :: Config where
  "sample_config =
     \<lparr>LicenseSecretName = ''es-license'', LicenseSecretNamespace = ''prod'',
      LicenseSecretKey = ''license.jwt'', NodeLabelKey = ''es-products.io/licensed'',
      NodeLabelValue = ''true'', LicenseServerURL = ''https://licenses.example'',
      PhoneHomeEnabled = True, PhoneHomeInterval = 86400000000000, PhoneHomeRetries = 3,
      PhoneHomeTimeout = 30000000000, ValidationInterval = 300000000000, FailOpen = True,
      Config_GracePeriodDays = 0, HTTPPort = 8080, MetricsPort = 9090,
      HealthCheckInterval = 30000000000, LogLevel = ''info'', LogFormat = ''json''\<rparr>"

definition sample_service :: ValidatorService where
  "sample_service =
     \<lparr>cfg = sample_config, validator = sample_validator,
      phoneHomeClient = Some (sample_client 3), currentResult = None\<rparr>"

text \<open>A cycle in which the secret is read and the node list fails.\<close>

definition outage_cycle :: Cycle where
  "outage_cycle =
     \<lparr>secretGet = Inr [(''license.jwt'',
          signed_token ''RS512'' sample_key (sample_claims (JNumber 5) (JNumber 7)))],
      nodeList = Inl (ErrorString ''connection refused''),
      clock0 = Unix 1900000000 0, clock1 = Unix 1900000000 1\<rparr>"

section \<open>Lemmas on decoding and on \<open>Validate\<close>\<close>

lemma if_ok_None [simp]: "if_ok None f r = r"
  by (simp add: if_ok_def)

lemma if_ok_Some [simp]: "if_ok (Some a) f r = f a r"
  by (simp add: if_ok_def)

lemma parseLicense_Inr: "\<exists>l. parseLicense claims = Inr l"
  by (simp add: parseLicense_def Let_def)

lemma if_ok_keep: "(\<And>a r. g (f a r) = g r) \<Longrightarrow> g (if_ok x f r) = g r"
  by (cases x) simp_all

lemma string_entries_eq: "string_entries m = [(k, s). (k, JString s) \<leftarrow> m]"
  by (induction m rule: string_entries.induct) (simp_all split: json.splits)

lemma string_elements_eq: "string_elements fs = [s. JString s \<leftarrow> fs]"
  by (induction fs) (simp_all split: json.splits)

lemma ParseWithClaims_Inr:
  assumes "ParseWithClaims jwt (keyFunc v) = Inr token"
  shows "\<exists>parts alg. jwt = TokenText parts
           \<and> assert_string (map_of (Header parts) ''alg'') = Some alg
           \<and> alg \<in> set [''RS256'', ''RS384'', ''RS512'']
           \<and> (alg, publicKey v) \<in> set (AcceptedUnder parts)
           \<and> RegisteredClaimsOK parts
           \<and> token = \<lparr>Method = SigningMethodRSA alg, Token_Header = Header parts,
                       Token_Claims = Claims parts, Token_Valid = True\<rparr>"
  using assms
  by (auto simp: ParseWithClaims_def ParseUnverified_def keyFunc_def GetSigningMethod_def
        split: TokenText.splits option.splits sum.splits if_splits SigningMethod.splits)

lemma Validate_Inl:
  assumes "ParseWithClaims jwt (keyFunc v) = Inl err"
  shows "Validate v jwt n ns t0 now =
           ValidationResult_zero
             \<lparr>ValidationTime := t0, NodeCount := n, ActualNamespace := ns,
              Error := Some (ErrorWrap ''JWT validation failed: '' err), Valid := False\<rparr>"
  using assms by (simp add: Validate_def)

lemma Validate_Inr:
  assumes "ParseWithClaims jwt (keyFunc v) = Inr token"
    and "parseLicense (Token_Claims token) = Inr l"
  shows "Validate v jwt n ns t0 now =
     \<lparr>Valid = ((now < ExpiresAt l
                 \<or> (ExpiresAt l < now \<and> now < AddDate_days (ExpiresAt l) (GracePeriodDays l)))
               \<and> n \<le> LicensedNodes l \<and> ns = Namespace l),
      License = Some l,
      Error = (if ns = Namespace l then None
               else Some (ErrorString
                            (''namespace mismatch: license is for namespace ''
                             @ [CHR 0x27] @ Namespace l @ [CHR 0x27]
                             @ '' but validator is running in ''
                             @ [CHR 0x27] @ ns @ [CHR 0x27]))),
      Result_ExpiresAt = ExpiresAt l,
      DaysUntilExpiry = days_of_Duration (Sub (ExpiresAt l) now),
      IsInGracePeriod =
        (ExpiresAt l < now \<and> now < AddDate_days (ExpiresAt l) (GracePeriodDays l)),
      NodeCount = n,
      Result_LicensedNodes = LicensedNodes l,
      NodeCountValid = (n \<le> LicensedNodes l),
      NamespaceValid = (ns = Namespace l),
      ActualNamespace = ns,
      LicenseNamespace = Namespace l,
      SignatureValid = True,
      ExpiryValid = (now < ExpiresAt l),
      ValidationTime = t0\<rparr>"
proof -
  from ParseWithClaims_Inr [OF assms(1)] have tv: "Token_Valid token" by auto
  show ?thesis
    using assms tv
    by (simp add: Validate_def Let_def ValidationResult_zero_def Before_def After_def)
qed

lemma Validate_License_Some:
  assumes "License (Validate v jwt n ns t0 now) = Some l"
  shows "\<exists>token. ParseWithClaims jwt (keyFunc v) = Inr token
            \<and> parseLicense (Token_Claims token) = Inr l"
proof (cases "ParseWithClaims jwt (keyFunc v)")
  case (Inl err)
  from assms show ?thesis
    by (simp add: Validate_Inl [OF Inl] ValidationResult_zero_def)
next
  case (Inr token)
  obtain l' where l': "parseLicense (Token_Claims token) = Inr l'"
    using parseLicense_Inr by blast
  from assms have "l' = l" by (simp add: Validate_Inr [OF Inr l'])
  with Inr l' show ?thesis by simp
qed

text \<open>Wrap-around, and the addition of days where nothing wraps.\<close>

lemma wrap64_id: "- 9223372036854775808 \<le> x \<Longrightarrow> x < 9223372036854775808 \<Longrightarrow> wrap64 x = x"
  by (simp add: wrap64_def)

lemma AddDate_days_in_range:
  assumes "- 9223372036854775808 \<le> t div 1000000000 + 62135596800 + days * 86400"
    and "t div 1000000000 + 62135596800 + days * 86400 \<le> 9223372036854775807"
  shows "AddDate_days t days = t + days * 86400 * 1000000000"
proof -
  have w: "wrap64 (t div 1000000000 + 62135596800 + days * 86400)
      = t div 1000000000 + 62135596800 + days * 86400"
    using assms by (intro wrap64_id) linarith+
  have d: "t div 1000000000 * 1000000000 = t - t mod 1000000000"
    by (simp add: minus_mod_eq_div_mult)
  show ?thesis
    unfolding AddDate_days_def Time_of_internal_def w
    by (simp add: algebra_simps d)
qed

lemmas Unix_eval = Unix_def Time_of_internal_def wrap64_def

lemma Unix_sample [simp]:
  "Unix 2000000000 0 = 2000000000000000000"
  by (simp add: Unix_def Time_of_internal_def wrap64_def)

lemma int_of_float64_of_int:
  "- 9223372036854775808 \<le> i \<Longrightarrow> i \<le> 9223372036854775807 \<Longrightarrow>
     int_of_float64 (of_int i) = i"
  by (simp add: int_of_float64_def)

text \<open>The sample tokens decode to the sample licenses.\<close>

lemma parse_sample_claims:
  assumes "- 9223372036854775808 \<le> nodes" "nodes \<le> 9223372036854775807"
    and "- 9223372036854775808 \<le> grace" "grace \<le> 9223372036854775807"
  shows "parseLicense (sample_claims (JNumber (of_int nodes)) (JNumber (of_int grace)))
     = Inr (sample_license nodes grace)"
proof -
  have e: "int_of_float64 2000000000 = 2000000000"
    using int_of_float64_of_int [of 2000000000] by simp
  show ?thesis
    using assms
    by (simp add: parseLicense_def sample_claims_def sample_license_def Let_def
        License_zero_def int_of_float64_of_int e)
qed

lemma parse_sample_claims_string:
  assumes "- 9223372036854775808 \<le> grace" "grace \<le> 9223372036854775807"
  shows "parseLicense (sample_claims (JString s) (JNumber (of_int grace)))
     = Inr (sample_license 0 grace)"
proof -
  have e: "int_of_float64 2000000000 = 2000000000"
    using int_of_float64_of_int [of 2000000000] by simp
  show ?thesis
    using assms
    by (simp add: parseLicense_def sample_claims_def sample_license_def Let_def
        License_zero_def int_of_float64_of_int e)
qed

lemma parse_perpetual_claims:
  assumes "- 9223372036854775808 \<le> grace" "grace \<le> 9223372036854775807"
  shows "parseLicense (perpetual_claims (JNumber (of_int grace))) = Inr (perpetual_license grace)"
proof -
  have e: "int_of_float64 5 = 5"
    using int_of_float64_of_int [of 5] by simp
  show ?thesis
    using assms
    by (simp add: parseLicense_def perpetual_claims_def perpetual_license_def Let_def
        License_zero_def int_of_float64_of_int e)
qed

lemma ParseWithClaims_signed_RSA:
  assumes "alg \<in> set [''RS256'', ''RS384'', ''RS512'']"
  shows "ParseWithClaims (signed_token alg (publicKey v) claims) (keyFunc v) =
     Inr \<lparr>Method = SigningMethodRSA alg,
          Token_Header = [(''alg'', JString alg), (''typ'', JString ''JWT'')],
          Token_Claims = claims, Token_Valid = True\<rparr>"
  using assms
  by (auto simp: ParseWithClaims_def ParseUnverified_def keyFunc_def GetSigningMethod_def
      signed_token_def)

lemma ParseWithClaims_signed_sample:
  assumes "alg \<in> set [''RS256'', ''RS384'', ''RS512'']"
  shows "ParseWithClaims (signed_token alg sample_key claims) (keyFunc sample_validator) =
     Inr \<lparr>Method = SigningMethodRSA alg,
          Token_Header = [(''alg'', JString alg), (''typ'', JString ''JWT'')],
          Token_Claims = claims, Token_Valid = True\<rparr>"
proof -
  have pk: "sample_key = publicKey sample_validator"
    by (simp add: sample_validator_def)
  show ?thesis
    unfolding pk by (rule ParseWithClaims_signed_RSA) (rule assms)
qed

lemma Validate_signed_sample:
  assumes "alg \<in> set [''RS256'', ''RS384'', ''RS512'']"
    and "parseLicense claims = Inr (sample_license nodes grace)"
  shows "Validate sample_validator (signed_token alg sample_key claims) n ns t0 now
   = \<lparr>Valid = ((now < 2000000000000000000
                 \<or> (2000000000000000000 < now
                    \<and> now < AddDate_days 2000000000000000000 grace))
               \<and> n \<le> nodes \<and> ns = ''prod''),
      License = Some (sample_license nodes grace),
      Error = (if ns = ''prod'' then None
               else Some (ErrorString
                            (''namespace mismatch: license is for namespace ''
                             @ [CHR 0x27] @ ''prod'' @ [CHR 0x27]
                             @ '' but validator is running in ''
                             @ [CHR 0x27] @ ns @ [CHR 0x27]))),
      Result_ExpiresAt = 2000000000000000000,
      DaysUntilExpiry = days_of_Duration (Sub 2000000000000000000 now),
      IsInGracePeriod =
        (2000000000000000000 < now \<and> now < AddDate_days 2000000000000000000 grace),
      NodeCount = n,
      Result_LicensedNodes = nodes,
      NodeCountValid = (n \<le> nodes),
      NamespaceValid = (ns = ''prod''),
      ActualNamespace = ns,
      LicenseNamespace = ''prod'',
      SignatureValid = True,
      ExpiryValid = (now < 2000000000000000000),
      ValidationTime = t0\<rparr>"
  by (simp add: Validate_Inr [OF ParseWithClaims_signed_sample [OF assms(1)], simplified,
        OF assms(2)] sample_license_def License_zero_def)

lemma Validate_signed_perpetual:
  assumes "alg \<in> set [''RS256'', ''RS384'', ''RS512'']"
    and "parseLicense claims = Inr (perpetual_license grace)"
  shows "Validate sample_validator (signed_token alg sample_key claims) n ns t0 now
   = \<lparr>Valid = ((now < - 62135596800000000000
                 \<or> (- 62135596800000000000 < now
                    \<and> now < AddDate_days (- 62135596800000000000) grace))
               \<and> n \<le> 5 \<and> ns = ''prod''),
      License = Some (perpetual_license grace),
      Error = (if ns = ''prod'' then None
               else Some (ErrorString
                            (''namespace mismatch: license is for namespace ''
                             @ [CHR 0x27] @ ''prod'' @ [CHR 0x27]
                             @ '' but validator is running in ''
                             @ [CHR 0x27] @ ns @ [CHR 0x27]))),
      Result_ExpiresAt = - 62135596800000000000,
      DaysUntilExpiry = days_of_Duration (Sub (- 62135596800000000000) now),
      IsInGracePeriod =
        (- 62135596800000000000 < now \<and> now < AddDate_days (- 62135596800000000000) grace),
      NodeCount = n,
      Result_LicensedNodes = 5,
      NodeCountValid = (n \<le> 5),
      NamespaceValid = (ns = ''prod''),
      ActualNamespace = ns,
      LicenseNamespace = ''prod'',
      SignatureValid = True,
      ExpiryValid = (now < - 62135596800000000000),
      ValidationTime = t0\<rparr>"
  by (simp add: Validate_Inr [OF ParseWithClaims_signed_sample [OF assms(1)], simplified,
        OF assms(2)] perpetual_license_def License_zero_def Time_zero_def
        Time_of_internal_def)

lemmas Validate_sample = Validate_signed_sample [OF _ parse_sample_claims]

lemmas Validate_sample_RS512 = Validate_sample [of "''RS512''", simplified]

lemmas Validate_sample_5_7 = Validate_sample_RS512 [of 5 7, simplified]

lemmas Validate_perpetual =
  Validate_signed_perpetual [of "''RS512''", OF _ parse_perpetual_claims, simplified]

lemma header_alg_signed [simp]: "header_alg (signed_token alg key claims) = Some alg"
  by (simp add: header_alg_def signed_token_def)

section \<open>Lemmas on the retry loop and on \<open>%d\<close>\<close>

lemma backoff_seconds:
  assumes "0 \<le> a" "a \<le> 96038"
  shows "backoff a = a * a * 1000000000"
proof -
  have "a * a \<le> 96038 * 96038"
    using assms by (intro mult_mono) simp_all
  then have sq: "a * a \<le> 9223297444" by simp
  have nn: "0 \<le> a * a" by simp
  have w1: "wrap64 (a * a) = a * a"
    using sq nn by (intro wrap64_id) linarith+
  have w2: "wrap64 (a * a * 1000000000) = a * a * 1000000000"
  proof (rule wrap64_id)
    show "- 9223372036854775808 \<le> a * a * 1000000000" using nn by linarith
    show "a * a * 1000000000 < 9223372036854775808" using sq by linarith
  qed
  show ?thesis by (simp add: backoff_def w1 w2)
qed

lemma send_loop_exhausted:
  "retries c < attempt \<Longrightarrow>
     send_loop c net req attempt lastErr events =
       (Some (Errorf_w (''phone home failed after '' @ sprint_d (retries c) @ '' retries: '')
                lastErr), events)"
  by (subst send_loop.simps) simp

lemma send_loop_first:
  "0 \<le> retries c \<Longrightarrow> sendRequest (respond net 0) = Some e \<Longrightarrow>
     send_loop c net req 0 lastErr events =
       send_loop c net req 1 (Some e) (events @ [Sent req])"
  by (subst send_loop.simps) (simp add: Let_def)

lemma send_loop_retry:
  "0 < attempt \<Longrightarrow> attempt \<le> retries c \<Longrightarrow> ctxDone net attempt = None \<Longrightarrow>
   sendRequest (respond net attempt) = Some e \<Longrightarrow>
     send_loop c net req attempt lastErr events =
       send_loop c net req (attempt + 1) (Some e)
         (events @ [Slept (backoff attempt), Sent req])"
  by (subst send_loop.simps) (simp add: Let_def)

lemma send_loop_cancelled:
  "0 < attempt \<Longrightarrow> attempt \<le> retries c \<Longrightarrow> ctxDone net attempt = Some e \<Longrightarrow>
     send_loop c net req attempt lastErr events =
       (Some e, events @ [Aborted (backoff attempt)])"
  by (subst send_loop.simps) simp

lemma send_loop_all_fail:
  assumes "0 < a0"
    and "\<forall>a. a0 \<le> a \<and> a \<le> retries c \<longrightarrow>
           sendRequest (respond net a) \<noteq> None \<and> ctxDone net a = None"
  shows "send_loop c net req a0 lastErr events =
     (Some (Errorf_w (''phone home failed after '' @ sprint_d (retries c) @ '' retries: '')
              (if a0 \<le> retries c then sendRequest (respond net (retries c)) else lastErr)),
      events @ concat (map (\<lambda>a. [Slept (backoff a), Sent req]) [a0..retries c]))"
  using assms
proof (induction "nat (retries c + 1 - a0)" arbitrary: a0 lastErr events)
  case 0
  then have "retries c < a0" by simp
  then show ?case by (simp add: send_loop_exhausted)
next
  case (Suc k)
  then have le: "a0 \<le> retries c" by simp
  from Suc.prems le obtain e where e: "sendRequest (respond net a0) = Some e"
    and d: "ctxDone net a0 = None" by auto
  have k: "k = nat (retries c + 1 - (a0 + 1))" using Suc.hyps(2) by simp
  have pos: "0 < a0 + 1" using Suc.prems(1) by simp
  have rest: "\<forall>a. a0 + 1 \<le> a \<and> a \<le> retries c \<longrightarrow>
           sendRequest (respond net a) \<noteq> None \<and> ctxDone net a = None"
    using Suc.prems(2) by simp
  have last: "(if a0 + 1 \<le> retries c then sendRequest (respond net (retries c)) else Some e)
      = sendRequest (respond net (retries c))"
    using le e by (cases "a0 = retries c") auto
  have up: "[a0..retries c] = a0 # [a0 + 1..retries c]"
    using le by (simp add: upto_rec1)
  show ?case
    by (simp add: send_loop_retry [OF Suc.prems(1) le d e]
        Suc.hyps(1) [OF k pos rest] last up le)
qed

lemma send_loop_abort:
  assumes "0 < a0" "a0 \<le> k" "k \<le> retries c" "ctxDone net k = Some e"
    and "\<forall>a. a0 \<le> a \<and> a < k \<longrightarrow>
           sendRequest (respond net a) \<noteq> None \<and> ctxDone net a = None"
  shows "send_loop c net req a0 lastErr events =
     (Some e,
      events @ concat (map (\<lambda>a. [Slept (backoff a), Sent req]) [a0..k - 1])
        @ [Aborted (backoff k)])"
  using assms
proof (induction "nat (k - a0)" arbitrary: a0 lastErr events)
  case 0
  then have "a0 = k" by simp
  with 0 show ?case by (simp add: send_loop_cancelled)
next
  case (Suc m)
  then have lt: "a0 < k" by simp
  then have le: "a0 \<le> retries c" using Suc.prems by simp
  from Suc.prems lt obtain e' where e': "sendRequest (respond net a0) = Some e'"
    and d: "ctxDone net a0 = None" by auto
  have m: "m = nat (k - (a0 + 1))" using Suc.hyps(2) by simp
  have pos: "0 < a0 + 1" using Suc.prems(1) by simp
  have le': "a0 + 1 \<le> k" using lt by simp
  have rest: "\<forall>a. a0 + 1 \<le> a \<and> a < k \<longrightarrow>
           sendRequest (respond net a) \<noteq> None \<and> ctxDone net a = None"
    using Suc.prems(5) by simp
  have up: "[a0..k - 1] = a0 # [a0 + 1..k - 1]"
    using lt by (simp add: upto_rec1)
  show ?case
    by (simp add: send_loop_retry [OF Suc.prems(1) le d e']
        Suc.hyps(1) [OF m pos le' Suc.prems(3) Suc.prems(4) rest] up)
qed

lemma tries_append [simp]: "tries (xs @ ys) = tries xs + tries ys"
  by (simp add: tries_def)

lemma tries_rounds:
  "tries (concat (map (\<lambda>a. [Slept (backoff a), Sent req]) [i..j])) = nat (j + 1 - i)"
proof (induction "nat (j + 1 - i)" arbitrary: i)
  case 0
  then show ?case by (simp add: tries_def)
next
  case (Suc m)
  then have le: "i \<le> j" by simp
  have m: "m = nat (j + 1 - (i + 1))" using Suc.hyps(2) by simp
  have up: "[i..j] = i # [i + 1..j]" using le by (simp add: upto_rec1)
  have "tries (concat (map (\<lambda>a. [Slept (backoff a), Sent req]) [i + 1..j])) = m"
    using Suc.hyps(1) [OF m] m by simp
  then show ?case using Suc.hyps(2) by (simp add: up tries_def)
qed

lemma decimal_digit: "n < 10 \<Longrightarrow> decimal n = [digit n]"
  by (subst decimal.simps) simp

lemma sprint_d_samples:
  "sprint_d 1 = ''1''" "sprint_d 3 = ''3''" "sprint_d 5 = ''5''" "sprint_d 9 = ''9''"
  "sprint_d (- 2) = ''-2''"
  by (simp_all add: sprint_d_def decimal_digit digit_def)

lemma sprint_d_503: "sprint_d 503 = ''503''"
proof -
  have "decimal 503 = decimal 50 @ [digit 3]" by (subst decimal.simps) simp
  also have "decimal 50 = decimal 5 @ [digit 0]" by (subst decimal.simps) simp
  finally show ?thesis by (simp add: sprint_d_def decimal_digit digit_def)
qed

lemma upto_1_3: "[1..3::int] = [1, 2, 3]" "[1..1::int] = [1]"
  by (simp_all add: upto_rec1)

lemma sendRequest_503:
  "sendRequest (Responded 503 body) = Some (ErrorString ''server returned error status: 503'')"
  by (simp add: sendRequest_def sprint_d_503)

lemma backoff_samples:
  "backoff 1 = 1000000000" "backoff 2 = 4000000000" "backoff 3 = 9000000000"
  by (simp_all add: backoff_seconds)

section \<open>The claims\<close>

text \<open>
  C1, as the code has it. For every token and trusted key, the key function of
  \<open>Validate\<close> fixes the family of the signing method by itself: RSA with PKCS #1 v1.5
  padding, that is \<open>RS256\<close>, \<open>RS384\<close> or \<open>RS512\<close>, the hash size within the family being
  the one the header names. A token whose header names any other algorithm (\<open>none\<close>,
  an HMAC, RSA-PSS or elliptic-curve algorithm, an unknown name) or no algorithm at all
  is rejected with an error before \<open>parseLicense\<close> runs, whatever its signature: the
  result is the zero result with the error, and carries no License. A License is
  produced only for a token whose signature the library accepts under an algorithm of
  that family and the validator's own key.
\<close>

theorem Validate_rejects_other_algorithms:
  "(header_alg jwt \<notin> Some ` set [''RS256'', ''RS384'', ''RS512''] \<longrightarrow>
      (\<exists>e. Validate v jwt n ns t0 now =
            ValidationResult_zero
              \<lparr>ValidationTime := t0, NodeCount := n, ActualNamespace := ns,
               Error := Some (ErrorWrap ''JWT validation failed: '' e), Valid := False\<rparr>)
      \<and> License (Validate v jwt n ns t0 now) = None
      \<and> \<not> Valid (Validate v jwt n ns t0 now)
      \<and> \<not> SignatureValid (Validate v jwt n ns t0 now))
   \<and> (\<forall>l. License (Validate v jwt n ns t0 now) = Some l \<longrightarrow>
         (\<exists>parts alg. jwt = TokenText parts \<and> header_alg jwt = Some alg
            \<and> alg \<in> set [''RS256'', ''RS384'', ''RS512'']
            \<and> (alg, publicKey v) \<in> set (AcceptedUnder parts)))"
proof (intro conjI impI allI)
  assume other: "header_alg jwt \<notin> Some ` set [''RS256'', ''RS384'', ''RS512'']"
  have inl: "\<exists>err. ParseWithClaims jwt (keyFunc v) = Inl err"
  proof (cases "ParseWithClaims jwt (keyFunc v)")
    case (Inl err)
    then show ?thesis by blast
  next
    case (Inr token)
    from ParseWithClaims_Inr [OF Inr] obtain parts alg where
      "jwt = TokenText parts" "assert_string (map_of (Header parts) ''alg'') = Some alg"
      "alg \<in> set [''RS256'', ''RS384'', ''RS512'']" by blast
    then have "header_alg jwt \<in> Some ` set [''RS256'', ''RS384'', ''RS512'']"
      by (simp add: header_alg_def)
    with other show ?thesis by simp
  qed
  then obtain err where err: "ParseWithClaims jwt (keyFunc v) = Inl err" by blast
  show "\<exists>e. Validate v jwt n ns t0 now =
            ValidationResult_zero
              \<lparr>ValidationTime := t0, NodeCount := n, ActualNamespace := ns,
               Error := Some (ErrorWrap ''JWT validation failed: '' e), Valid := False\<rparr>"
    using Validate_Inl [OF err] by blast
  show "License (Validate v jwt n ns t0 now) = None"
    by (simp add: Validate_Inl [OF err] ValidationResult_zero_def)
  show "\<not> Valid (Validate v jwt n ns t0 now)"
    by (simp add: Validate_Inl [OF err])
  show "\<not> SignatureValid (Validate v jwt n ns t0 now)"
    by (simp add: Validate_Inl [OF err] ValidationResult_zero_def)
next
  fix l
  assume "License (Validate v jwt n ns t0 now) = Some l"
  from Validate_License_Some [OF this] obtain token
    where p: "ParseWithClaims jwt (keyFunc v) = Inr token" by blast
  from ParseWithClaims_Inr [OF p] obtain parts alg where
    "jwt = TokenText parts" "assert_string (map_of (Header parts) ''alg'') = Some alg"
    "alg \<in> set [''RS256'', ''RS384'', ''RS512'']"
    "(alg, publicKey v) \<in> set (AcceptedUnder parts)" by blast
  then show "\<exists>parts alg. jwt = TokenText parts \<and> header_alg jwt = Some alg
            \<and> alg \<in> set [''RS256'', ''RS384'', ''RS512'']
            \<and> (alg, publicKey v) \<in> set (AcceptedUnder parts)"
    by (simp add: header_alg_def)
qed

text \<open>
  C1 as stated fails on the 512-bit class: a token whose header names \<open>RS256\<close>, signed
  accordingly under the trusted key, is accepted and yields a License.
\<close>

theorem RS256_accepted_counterexample:
  "header_alg (signed_token ''RS256'' sample_key (sample_claims (JNumber 5) (JNumber 7)))
     = Some ''RS256''
   \<and> License (Validate sample_validator
        (signed_token ''RS256'' sample_key (sample_claims (JNumber 5) (JNumber 7)))
        3 ''prod'' (Unix 1900000000 0) (Unix 1900000000 1)) = Some (sample_license 5 7)
   \<and> Valid (Validate sample_validator
        (signed_token ''RS256'' sample_key (sample_claims (JNumber 5) (JNumber 7)))
        3 ''prod'' (Unix 1900000000 0) (Unix 1900000000 1))"
  by (simp add: Validate_sample [of "''RS256''" 5 7, simplified] Unix_eval)

theorem Validate_rejects_other_algorithms_witness:
  "header_alg (signed_token ''HS256'' sample_key (sample_claims (JNumber 5) (JNumber 7)))
     = Some ''HS256''
   \<and> Validate sample_validator
        (signed_token ''HS256'' sample_key (sample_claims (JNumber 5) (JNumber 7)))
        3 ''prod'' (Unix 1900000000 0) (Unix 1900000000 1) =
       ValidationResult_zero
         \<lparr>ValidationTime := Unix 1900000000 0, NodeCount := 3, ActualNamespace := ''prod'',
          Error := Some (ErrorWrap ''JWT validation failed: ''
                    (ErrorWrap ''token is unverifiable: error while executing keyfunc: ''
                       (ErrorString ''unexpected signing method: HS256''))),
          Valid := False\<rparr>
   \<and> License (Validate sample_validator
        (signed_token ''HS256'' sample_key (sample_claims (JNumber 5) (JNumber 7)))
        3 ''prod'' (Unix 1900000000 0) (Unix 1900000000 1)) = None
   \<and> License (Validate sample_validator
        (signed_token ''none'' sample_key (sample_claims (JNumber 5) (JNumber 7)))
        3 ''prod'' (Unix 1900000000 0) (Unix 1900000000 1)) = None
   \<and> License (Validate sample_validator
        (signed_token ''RS512'' sample_key (sample_claims (JNumber 5) (JNumber 7)))
        3 ''prod'' (Unix 1900000000 0) (Unix 1900000000 1)) = Some (sample_license 5 7)
   \<and> header_alg (signed_token ''RS512'' sample_key (sample_claims (JNumber 5) (JNumber 7)))
       = Some ''RS512''"
proof -
  have h: "header_alg (signed_token ''HS256'' sample_key (sample_claims (JNumber 5) (JNumber 7)))
      \<notin> Some ` set [''RS256'', ''RS384'', ''RS512'']"
    by simp
  have n: "header_alg (signed_token ''none'' sample_key (sample_claims (JNumber 5) (JNumber 7)))
      \<notin> Some ` set [''RS256'', ''RS384'', ''RS512'']"
    by simp
  have p: "ParseWithClaims
      (signed_token ''HS256'' sample_key (sample_claims (JNumber 5) (JNumber 7)))
      (keyFunc sample_validator) =
      Inl (ErrorWrap ''token is unverifiable: error while executing keyfunc: ''
             (ErrorString ''unexpected signing method: HS256''))"
    by (simp add: ParseWithClaims_def ParseUnverified_def keyFunc_def GetSigningMethod_def
        signed_token_def)
  have l: "License (Validate sample_validator
        (signed_token ''RS512'' sample_key (sample_claims (JNumber 5) (JNumber 7)))
        3 ''prod'' (Unix 1900000000 0) (Unix 1900000000 1)) = Some (sample_license 5 7)"
    by (simp add: Validate_sample_5_7)
  from Validate_rejects_other_algorithms
         [of "signed_token ''HS256'' sample_key (sample_claims (JNumber 5) (JNumber 7))"
           sample_validator 3 "''prod''" "Unix 1900000000 0" "Unix 1900000000 1"]
       Validate_rejects_other_algorithms
         [of "signed_token ''none'' sample_key (sample_claims (JNumber 5) (JNumber 7))"
           sample_validator 3 "''prod''" "Unix 1900000000 0" "Unix 1900000000 1"]
       Validate_rejects_other_algorithms
         [of "signed_token ''RS512'' sample_key (sample_claims (JNumber 5) (JNumber 7))"
           sample_validator 3 "''prod''" "Unix 1900000000 0" "Unix 1900000000 1"]
       h n l
  show ?thesis by (simp add: Validate_Inl [OF p])
qed

text \<open>
  C2. For every result of \<open>Validate\<close>, and so for every result of a successful decode,
  the overall flag is the conjunction of the sub-checks of the same result:
  \<open>Valid = SignatureValid \<and> (ExpiryValid \<or> IsInGracePeriod) \<and> NodeCountValid \<and> NamespaceValid\<close>.
  \<open>Validate\<close> is a function of its arguments and the clock alone, so the flag is derived
  anew on every call.
\<close>

theorem Validate_valid_is_conjunction:
  "Valid (Validate v jwt n ns t0 now) =
     (SignatureValid (Validate v jwt n ns t0 now)
      \<and> (ExpiryValid (Validate v jwt n ns t0 now) \<or> IsInGracePeriod (Validate v jwt n ns t0 now))
      \<and> NodeCountValid (Validate v jwt n ns t0 now)
      \<and> NamespaceValid (Validate v jwt n ns t0 now))"
proof (cases "ParseWithClaims jwt (keyFunc v)")
  case (Inl err)
  show ?thesis
    by (simp add: Validate_Inl [OF Inl] ValidationResult_zero_def)
next
  case (Inr token)
  obtain l where l: "parseLicense (Token_Claims token) = Inr l"
    using parseLicense_Inr by blast
  show ?thesis
    by (simp add: Validate_Inr [OF Inr l])
qed

theorem Validate_valid_is_conjunction_witness:
  "License (Validate sample_validator
       (signed_token ''RS512'' sample_key (sample_claims (JNumber 5) (JNumber 7)))
       3 ''prod'' (Unix 1900000000 0) (Unix 1900000000 1)) = Some (sample_license 5 7)
   \<and> Valid (Validate sample_validator
       (signed_token ''RS512'' sample_key (sample_claims (JNumber 5) (JNumber 7)))
       3 ''prod'' (Unix 1900000000 0) (Unix 1900000000 1))
   \<and> Valid (Validate sample_validator
       (signed_token ''RS512'' sample_key (sample_claims (JNumber 5) (JNumber 7)))
       9 ''prod'' (Unix 1900000000 0) (Unix 1900000000 1)) = False
   \<and> NodeCountValid (Validate sample_validator
       (signed_token ''RS512'' sample_key (sample_claims (JNumber 5) (JNumber 7)))
       9 ''prod'' (Unix 1900000000 0) (Unix 1900000000 1)) = False"
  using Validate_valid_is_conjunction [of sample_validator
      "signed_token ''RS512'' sample_key (sample_claims (JNumber 5) (JNumber 7))"
      3 "''prod''" "Unix 1900000000 0" "Unix 1900000000 1"]
    Validate_valid_is_conjunction [of sample_validator
      "signed_token ''RS512'' sample_key (sample_claims (JNumber 5) (JNumber 7))"
      9 "''prod''" "Unix 1900000000 0" "Unix 1900000000 1"]
  by (simp add: Validate_sample_5_7 Unix_eval)

text \<open>
  C3, as the code has it. For every decoded license and evaluation time, \<open>ExpiryValid\<close>
  is true exactly when \<open>now < ExpiresAt\<close>; at the instant \<open>now = ExpiresAt\<close> the
  license is no longer temporally valid (\<open>ExpiryValid\<close> is false) and it is not in grace.
\<close>

theorem Validate_expiry_strict:
  assumes "License (Validate v jwt n ns t0 now) = Some l"
  shows "ExpiryValid (Validate v jwt n ns t0 now) = (now < ExpiresAt l)
     \<and> (now = ExpiresAt l \<longrightarrow>
          \<not> ExpiryValid (Validate v jwt n ns t0 now)
          \<and> \<not> IsInGracePeriod (Validate v jwt n ns t0 now))"
proof -
  from Validate_License_Some [OF assms] obtain token
    where p: "ParseWithClaims jwt (keyFunc v) = Inr token"
      and l: "parseLicense (Token_Claims token) = Inr l" by blast
  show ?thesis by (simp add: Validate_Inr [OF p l])
qed

text \<open>
  C3 as stated fails: with \<open>exp\<close> at second 2000000000 and the clock at that very
  instant, \<open>ExpiryValid\<close> is false.
\<close>

theorem expiry_at_expiresAt_counterexample:
  "License (Validate sample_validator
       (signed_token ''RS512'' sample_key (sample_claims (JNumber 5) (JNumber 7)))
       3 ''prod'' (Unix 1999999999 0) (Unix 2000000000 0)) = Some (sample_license 5 7)
   \<and> ExpiresAt (sample_license 5 7) = Unix 2000000000 0
   \<and> ExpiryValid (Validate sample_validator
       (signed_token ''RS512'' sample_key (sample_claims (JNumber 5) (JNumber 7)))
       3 ''prod'' (Unix 1999999999 0) (Unix 2000000000 0)) = False"
  by (simp add: Validate_sample_5_7 Unix_eval sample_license_def)

theorem Validate_expiry_strict_witness:
  "License (Validate sample_validator
       (signed_token ''RS512'' sample_key (sample_claims (JNumber 5) (JNumber 7)))
       3 ''prod'' (Unix 1999999999 0) (Unix 2000000000 0)) = Some (sample_license 5 7)
   \<and> Unix 2000000000 0 = ExpiresAt (sample_license 5 7)
   \<and> \<not> ExpiryValid (Validate sample_validator
       (signed_token ''RS512'' sample_key (sample_claims (JNumber 5) (JNumber 7)))
       3 ''prod'' (Unix 1999999999 0) (Unix 2000000000 0))
   \<and> \<not> IsInGracePeriod (Validate sample_validator
       (signed_token ''RS512'' sample_key (sample_claims (JNumber 5) (JNumber 7)))
       3 ''prod'' (Unix 1999999999 0) (Unix 2000000000 0))"
proof -
  have l: "License (Validate sample_validator
       (signed_token ''RS512'' sample_key (sample_claims (JNumber 5) (JNumber 7)))
       3 ''prod'' (Unix 1999999999 0) (Unix 2000000000 0)) = Some (sample_license 5 7)"
    by (simp add: Validate_sample_5_7)
  have e: "Unix 2000000000 0 = ExpiresAt (sample_license 5 7)"
    by (simp add: sample_license_def)
  from Validate_expiry_strict [OF l] e l show ?thesis by simp
qed

text \<open>
  C4, as the code has it. Let \<open>graceEnd = ExpiresAt + GracePeriodDays\<close> days (of 86400
  seconds) be an instant that a \<open>time.Time\<close> can hold, that is, one whose seconds since
  January 1 of year 1 fit an int64 (\<open>AddDate\<close> wraps around otherwise). Then
  \<open>IsInGracePeriod\<close> is true exactly when \<open>now > ExpiresAt\<close> and \<open>now < graceEnd\<close>; and
  when moreover the grace period is not negative and \<open>now\<close> is at or after \<open>graceEnd\<close>,
  both \<open>ExpiryValid\<close> and \<open>IsInGracePeriod\<close> are false.
\<close>

theorem Validate_grace_window:
  assumes "License (Validate v jwt n ns t0 now) = Some l"
    and "- 9223372036854775808
           \<le> ExpiresAt l div 1000000000 + 62135596800 + GracePeriodDays l * 86400"
    and "ExpiresAt l div 1000000000 + 62135596800 + GracePeriodDays l * 86400
           \<le> 9223372036854775807"
  shows "IsInGracePeriod (Validate v jwt n ns t0 now) =
       (now > ExpiresAt l \<and> now < ExpiresAt l + GracePeriodDays l * 86400 * 1000000000)
     \<and> (0 \<le> GracePeriodDays l
          \<and> now \<ge> ExpiresAt l + GracePeriodDays l * 86400 * 1000000000 \<longrightarrow>
          \<not> ExpiryValid (Validate v jwt n ns t0 now)
          \<and> \<not> IsInGracePeriod (Validate v jwt n ns t0 now))"
proof -
  from Validate_License_Some [OF assms(1)] obtain token
    where p: "ParseWithClaims jwt (keyFunc v) = Inr token"
      and l: "parseLicense (Token_Claims token) = Inr l" by blast
  have e: "AddDate_days (ExpiresAt l) (GracePeriodDays l) =
      ExpiresAt l + GracePeriodDays l * 86400 * 1000000000"
    by (rule AddDate_days_in_range [OF assms(2) assms(3)])
  have r: "ExpiryValid (Validate v jwt n ns t0 now) = (now < ExpiresAt l)"
    "IsInGracePeriod (Validate v jwt n ns t0 now) =
       (now > ExpiresAt l \<and> now < ExpiresAt l + GracePeriodDays l * 86400 * 1000000000)"
    by (simp_all add: Validate_Inr [OF p l] e)
  show ?thesis
    unfolding r by auto
qed

text \<open>
  C4 as stated fails in two ways. For a negative \<open>grace_period_days\<close> (here \<open>-1\<close>, the
  clock one hour before expiry) \<open>now\<close> is after \<open>graceEnd\<close> and \<open>ExpiryValid\<close> is true.
  For a \<open>grace_period_days\<close> so large that \<open>graceEnd\<close> is beyond what a \<open>time.Time\<close>
  holds (here 106751991167301 days, on a license with no \<open>exp\<close> claim, whose
  \<open>ExpiresAt\<close> is the zero time) \<open>now\<close> lies between \<open>ExpiresAt\<close> and
  \<open>ExpiresAt + GracePeriodDays\<close> days and \<open>IsInGracePeriod\<close> is false.
\<close>

theorem grace_window_counterexample:
  "License (Validate sample_validator
       (signed_token ''RS512'' sample_key (sample_claims (JNumber 5) (JNumber (- 1))))
       3 ''prod'' (Unix 1999990000 0) (Unix 1999996400 0)) = Some (sample_license 5 (- 1))
   \<and> ExpiresAt (sample_license 5 (- 1))
        + GracePeriodDays (sample_license 5 (- 1)) * 86400 * 1000000000
       \<le> Unix 1999996400 0
   \<and> ExpiryValid (Validate sample_validator
       (signed_token ''RS512'' sample_key (sample_claims (JNumber 5) (JNumber (- 1))))
       3 ''prod'' (Unix 1999990000 0) (Unix 1999996400 0))
   \<and> License (Validate sample_validator
       (signed_token ''RS512'' sample_key (perpetual_claims (JNumber 106751991167301)))
       3 ''prod'' (Unix 1900000000 0) (Unix 1900000000 1)) = Some (perpetual_license 106751991167301)
   \<and> ExpiresAt (perpetual_license 106751991167301) < Unix 1900000000 1
   \<and> Unix 1900000000 1
       < ExpiresAt (perpetual_license 106751991167301)
         + GracePeriodDays (perpetual_license 106751991167301) * 86400 * 1000000000
   \<and> IsInGracePeriod (Validate sample_validator
       (signed_token ''RS512'' sample_key (perpetual_claims (JNumber 106751991167301)))
       3 ''prod'' (Unix 1900000000 0) (Unix 1900000000 1)) = False"
proof -
  have a: "ExpiresAt (sample_license 5 (- 1)) = 2000000000000000000"
    "GracePeriodDays (sample_license 5 (- 1)) = - 1"
    "ExpiresAt (perpetual_license 106751991167301) = - 62135596800000000000"
    "GracePeriodDays (perpetual_license 106751991167301) = 106751991167301"
    by (simp_all add: sample_license_def perpetual_license_def License_zero_def Time_zero_def
        Time_of_internal_def)
  show ?thesis
    unfolding a
    by (simp add: Validate_sample_RS512 [of 5 "- 1", simplified]
        Validate_perpetual [of 106751991167301, simplified] Unix_eval AddDate_days_def)
qed

text \<open>
  A license with no \<open>exp\<close> claim and a grace period of 800000 days is in its grace
  period; the same license with 7 days is past it. A license that expires between the
  library's reading of the clock and the one of \<open>Validate\<close> is in its grace period.
\<close>

theorem Validate_grace_window_witness:
  "License (Validate sample_validator
       (signed_token ''RS512'' sample_key (perpetual_claims (JNumber 800000)))
       3 ''prod'' (Unix 1900000000 0) (Unix 1900000000 1)) = Some (perpetual_license 800000)
   \<and> IsInGracePeriod (Validate sample_validator
       (signed_token ''RS512'' sample_key (perpetual_claims (JNumber 800000)))
       3 ''prod'' (Unix 1900000000 0) (Unix 1900000000 1))
   \<and> License (Validate sample_validator
       (signed_token ''RS512'' sample_key (perpetual_claims (JNumber 7)))
       3 ''prod'' (Unix 1900000000 0) (Unix 1900000000 1)) = Some (perpetual_license 7)
   \<and> 0 \<le> GracePeriodDays (perpetual_license 7)
   \<and> Unix 1900000000 1
       \<ge> ExpiresAt (perpetual_license 7)
         + GracePeriodDays (perpetual_license 7) * 86400 * 1000000000
   \<and> \<not> ExpiryValid (Validate sample_validator
       (signed_token ''RS512'' sample_key (perpetual_claims (JNumber 7)))
       3 ''prod'' (Unix 1900000000 0) (Unix 1900000000 1))
   \<and> \<not> IsInGracePeriod (Validate sample_validator
       (signed_token ''RS512'' sample_key (perpetual_claims (JNumber 7)))
       3 ''prod'' (Unix 1900000000 0) (Unix 1900000000 1))
   \<and> License (Validate sample_validator
       (signed_token ''RS512'' sample_key (sample_claims (JNumber 5) (JNumber 7)))
       3 ''prod'' (Unix 1999999999 999999999) (Unix 2000000000 1)) = Some (sample_license 5 7)
   \<and> IsInGracePeriod (Validate sample_validator
       (signed_token ''RS512'' sample_key (sample_claims (JNumber 5) (JNumber 7)))
       3 ''prod'' (Unix 1999999999 999999999) (Unix 2000000000 1))"
proof -
  have f: "ExpiresAt (perpetual_license 800000) = - 62135596800000000000"
    "GracePeriodDays (perpetual_license 800000) = 800000"
    "ExpiresAt (perpetual_license 7) = - 62135596800000000000"
    "GracePeriodDays (perpetual_license 7) = 7"
    "ExpiresAt (sample_license 5 7) = 2000000000000000000"
    "GracePeriodDays (sample_license 5 7) = 7"
    by (simp_all add: sample_license_def perpetual_license_def License_zero_def Time_zero_def
        Time_of_internal_def)
  have l1: "License (Validate sample_validator
       (signed_token ''RS512'' sample_key (perpetual_claims (JNumber 800000)))
       3 ''prod'' (Unix 1900000000 0) (Unix 1900000000 1)) = Some (perpetual_license 800000)"
    by (simp add: Validate_perpetual [of 800000, simplified])
  have l2: "License (Validate sample_validator
       (signed_token ''RS512'' sample_key (perpetual_claims (JNumber 7)))
       3 ''prod'' (Unix 1900000000 0) (Unix 1900000000 1)) = Some (perpetual_license 7)"
    by (simp add: Validate_perpetual [of 7, simplified])
  have l3: "License (Validate sample_validator
       (signed_token ''RS512'' sample_key (sample_claims (JNumber 5) (JNumber 7)))
       3 ''prod'' (Unix 1999999999 999999999) (Unix 2000000000 1)) = Some (sample_license 5 7)"
    by (simp add: Validate_sample_5_7)
  have t: "Unix 1900000000 1 = 1900000000000000001"
    "Unix 2000000000 1 = 2000000000000000001"
    by (simp_all add: Unix_eval)
  note w1 = Validate_grace_window [OF l1, unfolded f t]
  note w2 = Validate_grace_window [OF l2, unfolded f t]
  note w3 = Validate_grace_window [OF l3, unfolded f t]
  from w1 have i1: "IsInGracePeriod (Validate sample_validator
       (signed_token ''RS512'' sample_key (perpetual_claims (JNumber 800000)))
       3 ''prod'' (Unix 1900000000 0) (Unix 1900000000 1))"
    unfolding t by simp
  from w2 have i2: "\<not> ExpiryValid (Validate sample_validator
       (signed_token ''RS512'' sample_key (perpetual_claims (JNumber 7)))
       3 ''prod'' (Unix 1900000000 0) (Unix 1900000000 1)) \<and> \<not> IsInGracePeriod (Validate sample_validator
       (signed_token ''RS512'' sample_key (perpetual_claims (JNumber 7)))
       3 ''prod'' (Unix 1900000000 0) (Unix 1900000000 1))"
    unfolding t by simp
  from w3 have i3: "IsInGracePeriod (Validate sample_validator
       (signed_token ''RS512'' sample_key (sample_claims (JNumber 5) (JNumber 7)))
       3 ''prod'' (Unix 1999999999 999999999) (Unix 2000000000 1))"
    unfolding t by simp
  have g: "0 \<le> GracePeriodDays (perpetual_license 7)"
    "Unix 1900000000 1
       \<ge> ExpiresAt (perpetual_license 7)
         + GracePeriodDays (perpetual_license 7) * 86400 * 1000000000"
    unfolding f t by simp_all
  from l1 i1 l2 g i2 l3 i3 show ?thesis by blast
qed

text \<open>
  C5. For every decoded license, if the observed namespace differs from the license's
  namespace (as strings, so also in case alone), the overall verdict is invalid whatever
  the other sub-checks say, and the result carries the namespace error, whose text
  names the license's namespace and then the observed one, each between single quotes
  (character \<open>0x27\<close>).
\<close>

theorem Validate_namespace_mismatch:
  assumes "License (Validate v jwt n ns t0 now) = Some l"
    and "ns \<noteq> Namespace l"
  shows "\<not> Valid (Validate v jwt n ns t0 now)
     \<and> \<not> NamespaceValid (Validate v jwt n ns t0 now)
     \<and> Error (Validate v jwt n ns t0 now) =
         Some (ErrorString (''namespace mismatch: license is for namespace ''
                 @ [CHR 0x27] @ Namespace l @ [CHR 0x27]
                 @ '' but validator is running in ''
                 @ [CHR 0x27] @ ns @ [CHR 0x27]))"
proof -
  from Validate_License_Some [OF assms(1)] obtain token
    where p: "ParseWithClaims jwt (keyFunc v) = Inr token"
      and l: "parseLicense (Token_Claims token) = Inr l" by blast
  show ?thesis using assms(2) by (simp add: Validate_Inr [OF p l])
qed

theorem Validate_namespace_mismatch_witness:
  "License (Validate sample_validator
       (signed_token ''RS512'' sample_key (sample_claims (JNumber 5) (JNumber 7)))
       3 ''Prod'' (Unix 1900000000 0) (Unix 1900000000 1)) = Some (sample_license 5 7)
   \<and> Namespace (sample_license 5 7) = ''prod''
   \<and> SignatureValid (Validate sample_validator
       (signed_token ''RS512'' sample_key (sample_claims (JNumber 5) (JNumber 7)))
       3 ''Prod'' (Unix 1900000000 0) (Unix 1900000000 1))
   \<and> ExpiryValid (Validate sample_validator
       (signed_token ''RS512'' sample_key (sample_claims (JNumber 5) (JNumber 7)))
       3 ''Prod'' (Unix 1900000000 0) (Unix 1900000000 1))
   \<and> NodeCountValid (Validate sample_validator
       (signed_token ''RS512'' sample_key (sample_claims (JNumber 5) (JNumber 7)))
       3 ''Prod'' (Unix 1900000000 0) (Unix 1900000000 1))
   \<and> \<not> Valid (Validate sample_validator
       (signed_token ''RS512'' sample_key (sample_claims (JNumber 5) (JNumber 7)))
       3 ''Prod'' (Unix 1900000000 0) (Unix 1900000000 1))
   \<and> Error (Validate sample_validator
       (signed_token ''RS512'' sample_key (sample_claims (JNumber 5) (JNumber 7)))
       3 ''Prod'' (Unix 1900000000 0) (Unix 1900000000 1)) =
         Some (ErrorString
           (''namespace mismatch: license is for namespace 'prod' ''
            @ ''but validator is running in 'Prod'' @ [CHR 0x27]))"
proof -
  have l: "License (Validate sample_validator
       (signed_token ''RS512'' sample_key (sample_claims (JNumber 5) (JNumber 7)))
       3 ''Prod'' (Unix 1900000000 0) (Unix 1900000000 1)) = Some (sample_license 5 7)"
    by (simp add: Validate_sample_5_7)
  have ns: "''Prod'' \<noteq> Namespace (sample_license 5 7)"
    by (simp add: sample_license_def)
  have others: "SignatureValid (Validate sample_validator
       (signed_token ''RS512'' sample_key (sample_claims (JNumber 5) (JNumber 7)))
       3 ''Prod'' (Unix 1900000000 0) (Unix 1900000000 1))"
    "ExpiryValid (Validate sample_validator
       (signed_token ''RS512'' sample_key (sample_claims (JNumber 5) (JNumber 7)))
       3 ''Prod'' (Unix 1900000000 0) (Unix 1900000000 1))"
    "NodeCountValid (Validate sample_validator
       (signed_token ''RS512'' sample_key (sample_claims (JNumber 5) (JNumber 7)))
       3 ''Prod'' (Unix 1900000000 0) (Unix 1900000000 1))"
    by (simp_all add: Validate_sample_5_7 Unix_eval)
  have n: "Namespace (sample_license 5 7) = ''prod''"
    by (simp add: sample_license_def)
  from Validate_namespace_mismatch [OF l ns] l others n show ?thesis by simp
qed

text \<open>
  C6. The classified status is the first matching rule of: valid, in grace period,
  expiry check failed, capacity check failed, signature check failed, otherwise
  \<open>invalid\<close>. In particular a result that is not valid, in its grace period and over
  its node limit classifies as \<open>grace_period\<close>.
\<close>

theorem getValidationStatus_precedence:
  "(Valid r \<longrightarrow> getValidationStatus r = ''valid'')
   \<and> (\<not> Valid r \<and> IsInGracePeriod r \<longrightarrow> getValidationStatus r = ''grace_period'')
   \<and> (\<not> Valid r \<and> \<not> IsInGracePeriod r \<and> \<not> ExpiryValid r \<longrightarrow>
        getValidationStatus r = ''expired'')
   \<and> (\<not> Valid r \<and> \<not> IsInGracePeriod r \<and> ExpiryValid r \<and> \<not> NodeCountValid r \<longrightarrow>
        getValidationStatus r = ''node_limit_exceeded'')
   \<and> (\<not> Valid r \<and> \<not> IsInGracePeriod r \<and> ExpiryValid r \<and> NodeCountValid r
        \<and> \<not> SignatureValid r \<longrightarrow>
        getValidationStatus r = ''invalid_signature'')
   \<and> (\<not> Valid r \<and> \<not> IsInGracePeriod r \<and> ExpiryValid r \<and> NodeCountValid r
        \<and> SignatureValid r \<longrightarrow>
        getValidationStatus r = ''invalid'')
   \<and> (\<not> Valid r \<and> IsInGracePeriod r \<and> \<not> NodeCountValid r \<longrightarrow>
        getValidationStatus r = ''grace_period'')"
  by (simp add: getValidationStatus_def)

theorem getValidationStatus_precedence_witness:
  "Valid grace_overlimit_result = False
   \<and> IsInGracePeriod grace_overlimit_result = True
   \<and> NodeCountValid grace_overlimit_result = False
   \<and> getValidationStatus grace_overlimit_result = ''grace_period''"
  using getValidationStatus_precedence [of grace_overlimit_result]
  by (simp add: grace_overlimit_result_def)

text \<open>
  C7, as the code has it. The message follows its own precedence, in which an attached
  error comes second: valid; then the text of the attached error, whatever the other
  fields say; then, with no error attached, grace period (with the negated days until
  expiry), expired, node limit (with the observed and the licensed node counts),
  signature, and the catch-all text. So a result classified \<open>grace_period\<close> receives the
  grace-period message only when no error is attached.
\<close>

theorem getValidationMessage_precedence:
  "(Valid r \<longrightarrow> getValidationMessage r = ''License is valid'')
   \<and> (\<not> Valid r \<and> Error r \<noteq> None \<longrightarrow>
        getValidationMessage r = Error_text (the (Error r)))
   \<and> (\<not> Valid r \<and> Error r = None \<and> IsInGracePeriod r \<longrightarrow>
        getValidationMessage r =
          ''License expired but in grace period ('' @ sprint_d (wrap64 (- DaysUntilExpiry r))
          @ '' days until grace period ends)'')
   \<and> (\<not> Valid r \<and> Error r = None \<and> \<not> IsInGracePeriod r \<and> \<not> ExpiryValid r \<longrightarrow>
        getValidationMessage r = ''License has expired'')
   \<and> (\<not> Valid r \<and> Error r = None \<and> \<not> IsInGracePeriod r \<and> ExpiryValid r
        \<and> \<not> NodeCountValid r \<longrightarrow>
        getValidationMessage r =
          ''Node count ('' @ sprint_d (NodeCount r) @ '') exceeds licensed nodes (''
          @ sprint_d (Result_LicensedNodes r) @ '')'')
   \<and> (\<not> Valid r \<and> Error r = None \<and> \<not> IsInGracePeriod r \<and> ExpiryValid r
        \<and> NodeCountValid r \<and> \<not> SignatureValid r \<longrightarrow>
        getValidationMessage r = ''Invalid license signature'')
   \<and> (\<not> Valid r \<and> Error r = None \<and> \<not> IsInGracePeriod r \<and> ExpiryValid r
        \<and> NodeCountValid r \<and> SignatureValid r \<longrightarrow>
        getValidationMessage r = ''License validation failed'')"
  by (simp add: getValidationMessage_def)

text \<open>
  C7 as stated fails: a result in its grace period with the namespace error attached
  classifies as \<open>grace_period\<close> and receives the text of the error, not the
  grace-period message.
\<close>

theorem grace_message_counterexample:
  "getValidationStatus grace_mismatch_result = ''grace_period''
   \<and> getValidationMessage grace_mismatch_result =
       ''namespace mismatch: license is for namespace 'prod' ''
       @ ''but validator is running in 'staging'' @ [CHR 0x27]
   \<and> getValidationMessage grace_mismatch_result \<noteq>
       ''License expired but in grace period (1 days until grace period ends)''"
  by (simp add: getValidationStatus_def getValidationMessage_def grace_mismatch_result_def)

theorem getValidationMessage_precedence_witness:
  "Valid grace_overlimit_result = False
   \<and> Error grace_overlimit_result = None
   \<and> IsInGracePeriod grace_overlimit_result = True
   \<and> getValidationMessage grace_overlimit_result =
       ''License expired but in grace period (1 days until grace period ends)''
   \<and> Valid grace_mismatch_result = False
   \<and> getValidationMessage grace_mismatch_result =
       Error_text (the (Error grace_mismatch_result))"
  using getValidationMessage_precedence [of grace_overlimit_result]
    getValidationMessage_precedence [of grace_mismatch_result]
  by (simp add: grace_overlimit_result_def grace_mismatch_result_def wrap64_def
      sprint_d_samples)

text \<open>
  C8, as the code has it. For every retry count that is not negative:
  \<^item> when every request fails and the context is never done during a wait, the
    reporter sends exactly \<open>retries + 1\<close> requests, the first without a wait and the
    request of attempt \<open>a\<close> after a full wait of \<open>backoff a\<close>, and returns the error
    \<open>phone home failed after N retries\<close> wrapping the failure of the last request;
  \<^item> when the context is done during the wait before attempt \<open>k\<close>, every earlier
    request having failed, the reporter returns the context's error at once: \<open>k\<close>
    requests were sent and none follows;
  \<^item> \<open>backoff a\<close> is \<open>a\<^sup>2\<close> seconds for every attempt up to 96038 (beyond, the int64
    count of nanoseconds wraps around).
\<close>

theorem SendPhoneHome_retries:
  assumes "License result = Some lic" and "0 \<le> retries c"
  shows
   "((\<forall>a. 0 \<le> a \<and> a \<le> retries c \<longrightarrow> sendRequest (respond net a) \<noteq> None)
      \<and> (\<forall>a. 1 \<le> a \<and> a \<le> retries c \<longrightarrow> ctxDone net a = None) \<longrightarrow>
       (\<exists>e. sendRequest (respond net (retries c)) = Some e
          \<and> SendPhoneHome c net now (Some result) =
              (Some (ErrorWrap (''phone home failed after '' @ sprint_d (retries c)
                        @ '' retries: '') e),
               Sent (prepare_request now result lic)
                 # concat (map (\<lambda>a. [Slept (backoff a), Sent (prepare_request now result lic)])
                     [1..retries c])))
       \<and> int (tries (snd (SendPhoneHome c net now (Some result)))) = retries c + 1)
    \<and> (\<forall>k e. 1 \<le> k \<and> k \<le> retries c \<and> ctxDone net k = Some e
          \<and> (\<forall>a. 0 \<le> a \<and> a < k \<longrightarrow> sendRequest (respond net a) \<noteq> None)
          \<and> (\<forall>a. 1 \<le> a \<and> a < k \<longrightarrow> ctxDone net a = None) \<longrightarrow>
         SendPhoneHome c net now (Some result) =
           (Some e,
            Sent (prepare_request now result lic)
              # concat (map (\<lambda>a. [Slept (backoff a), Sent (prepare_request now result lic)])
                  [1..k - 1])
              @ [Aborted (backoff k)])
         \<and> int (tries (snd (SendPhoneHome c net now (Some result)))) = k)
    \<and> (\<forall>a. 0 \<le> a \<and> a \<le> 96038 \<longrightarrow> backoff a = a * a * 1000000000)"
proof (intro conjI impI allI)
  let ?req = "prepare_request now result lic"
  have sp: "SendPhoneHome c net now (Some result) = send_loop c net ?req 0 None []"
    using assms(1) by (simp add: SendPhoneHome_def)
  {
    assume fail: "(\<forall>a. 0 \<le> a \<and> a \<le> retries c \<longrightarrow> sendRequest (respond net a) \<noteq> None)
      \<and> (\<forall>a. 1 \<le> a \<and> a \<le> retries c \<longrightarrow> ctxDone net a = None)"
    from fail assms(2) obtain e0 where e0: "sendRequest (respond net 0) = Some e0" by auto
    from fail assms(2) obtain e where e: "sendRequest (respond net (retries c)) = Some e"
      by auto
    have rest: "\<forall>a. 1 \<le> a \<and> a \<le> retries c \<longrightarrow>
           sendRequest (respond net a) \<noteq> None \<and> ctxDone net a = None"
      using fail by simp
    have run: "SendPhoneHome c net now (Some result) =
              (Some (ErrorWrap (''phone home failed after '' @ sprint_d (retries c)
                        @ '' retries: '') e),
               Sent ?req # concat (map (\<lambda>a. [Slept (backoff a), Sent ?req]) [1..retries c]))"
    proof (cases "1 \<le> retries c")
      case True
      then show ?thesis
        by (simp add: sp send_loop_first [OF assms(2) e0]
            send_loop_all_fail [OF zero_less_one rest] e Errorf_w_def)
    next
      case False
      with assms(2) have z: "retries c = 0" by simp
      with e e0 have "e0 = e" by simp
      with False show ?thesis
        by (simp add: sp send_loop_first [OF assms(2) e0]
            send_loop_all_fail [OF zero_less_one rest] Errorf_w_def)
    qed
    show "\<exists>e. sendRequest (respond net (retries c)) = Some e
          \<and> SendPhoneHome c net now (Some result) =
              (Some (ErrorWrap (''phone home failed after '' @ sprint_d (retries c)
                        @ '' retries: '') e),
               Sent ?req # concat (map (\<lambda>a. [Slept (backoff a), Sent ?req]) [1..retries c]))"
      using e run by blast
    have "tries (Sent ?req # concat (map (\<lambda>a. [Slept (backoff a), Sent ?req]) [1..retries c]))
        = 1 + nat (retries c)"
      using tries_rounds [of ?req 1 "retries c"] tries_append [of "[Sent ?req]"]
      by (simp add: tries_def)
    then show "int (tries (snd (SendPhoneHome c net now (Some result)))) = retries c + 1"
      using assms(2) by (simp add: run)
  }
  {
    fix k e
    assume h: "1 \<le> k \<and> k \<le> retries c \<and> ctxDone net k = Some e
          \<and> (\<forall>a. 0 \<le> a \<and> a < k \<longrightarrow> sendRequest (respond net a) \<noteq> None)
          \<and> (\<forall>a. 1 \<le> a \<and> a < k \<longrightarrow> ctxDone net a = None)"
    then obtain e0 where e0: "sendRequest (respond net 0) = Some e0" by auto
    have rest: "\<forall>a. 1 \<le> a \<and> a < k \<longrightarrow>
           sendRequest (respond net a) \<noteq> None \<and> ctxDone net a = None"
      using h by simp
    have k1: "1 \<le> k" and k2: "k \<le> retries c" and d: "ctxDone net k = Some e"
      using h by simp_all
    have run: "SendPhoneHome c net now (Some result) =
           (Some e,
            Sent ?req # concat (map (\<lambda>a. [Slept (backoff a), Sent ?req]) [1..k - 1])
              @ [Aborted (backoff k)])"
      by (simp add: sp send_loop_first [OF assms(2) e0]
          send_loop_abort [OF zero_less_one k1 k2 d rest])
    then show "SendPhoneHome c net now (Some result) =
           (Some e,
            Sent ?req # concat (map (\<lambda>a. [Slept (backoff a), Sent ?req]) [1..k - 1])
              @ [Aborted (backoff k)])" .
    have "tries (Sent ?req # concat (map (\<lambda>a. [Slept (backoff a), Sent ?req]) [1..k - 1])
              @ [Aborted (backoff k)]) = 1 + nat (k - 1)"
      using tries_rounds [of ?req 1 "k - 1"]
      by (simp add: tries_def)
    then show "int (tries (snd (SendPhoneHome c net now (Some result)))) = k"
      using k1 by (simp add: run)
  }
  {
    fix a :: int
    assume "0 \<le> a \<and> a \<le> 96038"
    then show "backoff a = a * a * 1000000000"
      by (simp add: backoff_seconds)
  }
qed

text \<open>
  C8 as stated fails for a negative retry count: with \<open>retries = -2\<close> no request is
  sent (not \<open>retries + 1 = -1\<close> of them) and the error wraps no failure.
\<close>

theorem negative_retries_counterexample:
  "retries (sample_client (- 2)) + 1 = - 1
   \<and> tries (snd (SendPhoneHome (sample_client (- 2)) failing_network (Unix 2000086400 0)
        (Some grace_overlimit_result))) = 0
   \<and> fst (SendPhoneHome (sample_client (- 2)) failing_network (Unix 2000086400 0)
        (Some grace_overlimit_result)) =
       Some (ErrorString ''phone home failed after -2 retries: %!w(<nil>)'')"
  by (simp add: SendPhoneHome_def grace_overlimit_result_def sample_client_def
      send_loop_exhausted Errorf_w_def sprint_d_samples tries_def)

theorem SendPhoneHome_retries_witness:
  "SendPhoneHome (sample_client 3) failing_network (Unix 2000086400 0)
       (Some grace_overlimit_result) =
     (Some (ErrorWrap ''phone home failed after 3 retries: ''
              (ErrorString ''server returned error status: 503'')),
      [Sent (prepare_request (Unix 2000086400 0) grace_overlimit_result (sample_license 5 7)),
       Slept 1000000000,
       Sent (prepare_request (Unix 2000086400 0) grace_overlimit_result (sample_license 5 7)),
       Slept 4000000000,
       Sent (prepare_request (Unix 2000086400 0) grace_overlimit_result (sample_license 5 7)),
       Slept 9000000000,
       Sent (prepare_request (Unix 2000086400 0) grace_overlimit_result (sample_license 5 7))])
   \<and> tries (snd (SendPhoneHome (sample_client 3) failing_network (Unix 2000086400 0)
        (Some grace_overlimit_result))) = 4
   \<and> SendPhoneHome (sample_client 3) cancelled_network (Unix 2000086400 0)
       (Some grace_overlimit_result) =
     (Some (ErrorString ''context canceled''),
      [Sent (prepare_request (Unix 2000086400 0) grace_overlimit_result (sample_license 5 7)),
       Slept 1000000000,
       Sent (prepare_request (Unix 2000086400 0) grace_overlimit_result (sample_license 5 7)),
       Aborted 4000000000])
   \<and> tries (snd (SendPhoneHome (sample_client 3) cancelled_network (Unix 2000086400 0)
        (Some grace_overlimit_result))) = 2"
proof -
  have l: "License grace_overlimit_result = Some (sample_license 5 7)"
    by (simp add: grace_overlimit_result_def)
  have r: "0 \<le> retries (sample_client 3)"
    by (simp add: sample_client_def)
  have r3: "retries (sample_client 3) = 3"
    by (simp add: sample_client_def)
  have f: "(\<forall>a. 0 \<le> a \<and> a \<le> retries (sample_client 3) \<longrightarrow>
              sendRequest (respond failing_network a) \<noteq> None)
      \<and> (\<forall>a. 1 \<le> a \<and> a \<le> retries (sample_client 3) \<longrightarrow> ctxDone failing_network a = None)"
    by (simp add: failing_network_def sendRequest_503)
  have c: "1 \<le> (2::int) \<and> 2 \<le> retries (sample_client 3)
      \<and> ctxDone cancelled_network 2 = Some (ErrorString ''context canceled'')
      \<and> (\<forall>a. 0 \<le> a \<and> a < 2 \<longrightarrow> sendRequest (respond cancelled_network a) \<noteq> None)
      \<and> (\<forall>a. 1 \<le> a \<and> a < 2 \<longrightarrow> ctxDone cancelled_network a = None)"
    by (simp add: cancelled_network_def sendRequest_503 sample_client_def)
  note t1 = SendPhoneHome_retries [OF l r, of failing_network "Unix 2000086400 0"]
  note t2 = SendPhoneHome_retries [OF l r, of cancelled_network "Unix 2000086400 0"]
  from t1 f have a: "\<exists>e. sendRequest (respond failing_network (retries (sample_client 3))) = Some e
          \<and> SendPhoneHome (sample_client 3) failing_network (Unix 2000086400 0)
               (Some grace_overlimit_result) =
              (Some (ErrorWrap (''phone home failed after '' @ sprint_d (retries (sample_client 3))
                        @ '' retries: '') e),
               Sent (prepare_request (Unix 2000086400 0) grace_overlimit_result (sample_license 5 7))
                 # concat (map (\<lambda>a. [Slept (backoff a),
                       Sent (prepare_request (Unix 2000086400 0) grace_overlimit_result
                         (sample_license 5 7))])
                     [1..retries (sample_client 3)]))"
    and a': "int (tries (snd (SendPhoneHome (sample_client 3) failing_network
        (Unix 2000086400 0) (Some grace_overlimit_result)))) = retries (sample_client 3) + 1"
    by blast+
  from t2 c have b: "SendPhoneHome (sample_client 3) cancelled_network (Unix 2000086400 0)
        (Some grace_overlimit_result) =
           (Some (ErrorString ''context canceled''),
            Sent (prepare_request (Unix 2000086400 0) grace_overlimit_result (sample_license 5 7))
              # concat (map (\<lambda>a. [Slept (backoff a),
                    Sent (prepare_request (Unix 2000086400 0) grace_overlimit_result
                      (sample_license 5 7))])
                  [1..2 - 1])
              @ [Aborted (backoff 2)])"
    and b': "int (tries (snd (SendPhoneHome (sample_client 3) cancelled_network
        (Unix 2000086400 0) (Some grace_overlimit_result)))) = 2"
    by blast+
  from a have a2: "SendPhoneHome (sample_client 3) failing_network (Unix 2000086400 0)
       (Some grace_overlimit_result) =
     (Some (ErrorWrap ''phone home failed after 3 retries: ''
              (ErrorString ''server returned error status: 503'')),
      [Sent (prepare_request (Unix 2000086400 0) grace_overlimit_result (sample_license 5 7)),
       Slept 1000000000,
       Sent (prepare_request (Unix 2000086400 0) grace_overlimit_result (sample_license 5 7)),
       Slept 4000000000,
       Sent (prepare_request (Unix 2000086400 0) grace_overlimit_result (sample_license 5 7)),
       Slept 9000000000,
       Sent (prepare_request (Unix 2000086400 0) grace_overlimit_result (sample_license 5 7))])"
    by (simp add: r3 failing_network_def sendRequest_503 upto_1_3 backoff_samples
        sprint_d_samples)
  from b have b2: "SendPhoneHome (sample_client 3) cancelled_network (Unix 2000086400 0)
       (Some grace_overlimit_result) =
     (Some (ErrorString ''context canceled''),
      [Sent (prepare_request (Unix 2000086400 0) grace_overlimit_result (sample_license 5 7)),
       Slept 1000000000,
       Sent (prepare_request (Unix 2000086400 0) grace_overlimit_result (sample_license 5 7)),
       Aborted 4000000000])"
    by (simp add: upto_1_3 backoff_samples)
  from a' r3 have a3: "tries (snd (SendPhoneHome (sample_client 3) failing_network
        (Unix 2000086400 0) (Some grace_overlimit_result))) = 4" by simp
  from b' have b3: "tries (snd (SendPhoneHome (sample_client 3) cancelled_network
        (Unix 2000086400 0) (Some grace_overlimit_result))) = 2" by simp
  from a2 a3 b2 b3 show ?thesis by blast
qed

text \<open>
  C9, as the code has it. \<open>parseLicense\<close> returns no error, whatever the shapes of the
  claims: each field takes its claim when the claim has the Go type the field expects,
  and keeps its zero value when the claim is absent or of another type (a
  \<open>licensed_nodes\<close> that is not a number gives a licensed node count of 0). So for
  every token that the library's \<open>ParseWithClaims\<close> accepts (its signature verified
  under the trusted key, its registered claims accepted by the library) a License is
  produced, and the only error the result can carry is the one of a namespace
  mismatch.
\<close>

theorem parseLicense_never_fails:
  "\<exists>l. parseLicense claims = Inr l
     \<and> Issuer l =
         (case map_of claims ''iss'' of Some (JString s) \<Rightarrow> s | _ \<Rightarrow> [])
     \<and> Subject l =
         (case map_of claims ''sub'' of Some (JString s) \<Rightarrow> s | _ \<Rightarrow> [])
     \<and> IssuedAt l =
         (case map_of claims ''iat'' of Some (JNumber x) \<Rightarrow> Unix (int_of_float64 x) 0 | _ \<Rightarrow> - 62135596800000000000)
     \<and> ExpiresAt l =
         (case map_of claims ''exp'' of Some (JNumber x) \<Rightarrow> Unix (int_of_float64 x) 0 | _ \<Rightarrow> - 62135596800000000000)
     \<and> NotBefore l =
         (case map_of claims ''nbf'' of Some (JNumber x) \<Rightarrow> Unix (int_of_float64 x) 0 | _ \<Rightarrow> - 62135596800000000000)
     \<and> LicenseID l =
         (case map_of claims ''license_id'' of Some (JString s) \<Rightarrow> s | _ \<Rightarrow> [])
     \<and> CustomerID l =
         (case map_of claims ''customer_id'' of Some (JString s) \<Rightarrow> s | _ \<Rightarrow> [])
     \<and> CustomerName l =
         (case map_of claims ''customer_name'' of Some (JString s) \<Rightarrow> s | _ \<Rightarrow> [])
     \<and> ProductCode l =
         (case map_of claims ''product_code'' of Some (JString s) \<Rightarrow> s | _ \<Rightarrow> [])
     \<and> ProductName l =
         (case map_of claims ''product_name'' of Some (JString s) \<Rightarrow> s | _ \<Rightarrow> [])
     \<and> TierCode l =
         (case map_of claims ''tier_code'' of Some (JString s) \<Rightarrow> s | _ \<Rightarrow> [])
     \<and> TierName l =
         (case map_of claims ''tier_name'' of Some (JString s) \<Rightarrow> s | _ \<Rightarrow> [])
     \<and> ClusterID l =
         (case map_of claims ''cluster_id'' of Some (JString s) \<Rightarrow> s | _ \<Rightarrow> [])
     \<and> ClusterName l =
         (case map_of claims ''cluster_name'' of Some (JString s) \<Rightarrow> s | _ \<Rightarrow> [])
     \<and> Namespace l =
         (case map_of claims ''namespace'' of Some (JString s) \<Rightarrow> s | _ \<Rightarrow> [])
     \<and> LicensedNodes l =
         (case map_of claims ''licensed_nodes'' of Some (JNumber x) \<Rightarrow> int_of_float64 x | _ \<Rightarrow> 0)
     \<and> MaxNodes l =
         (case map_of claims ''max_nodes'' of Some (JNumber x) \<Rightarrow> int_of_float64 x | _ \<Rightarrow> 0)
     \<and> NodeSelector l =
         (case map_of claims ''node_selector'' of Some (JObject m) \<Rightarrow> Some [(k, s). (k, JString s) \<leftarrow> m] | _ \<Rightarrow> None)
     \<and> Features l =
         (case map_of claims ''features'' of Some (JArray fs) \<Rightarrow> Some [s. JString s \<leftarrow> fs] | _ \<Rightarrow> None)
     \<and> GracePeriodDays l =
         (case map_of claims ''grace_period_days'' of Some (JNumber x) \<Rightarrow> int_of_float64 x | _ \<Rightarrow> 0)
     \<and> WarningDays l =
         (case map_of claims ''warning_days'' of Some (JNumber x) \<Rightarrow> int_of_float64 x | _ \<Rightarrow> 0)
     \<and> Enabled (PhoneHomeConfig l) =
         (case map_of claims ''phone_home'' of
            Some (JObject ph) \<Rightarrow>
              (case map_of ph ''enabled'' of Some (JBool b) \<Rightarrow> b | _ \<Rightarrow> False)
          | _ \<Rightarrow> False)
     \<and> URL (PhoneHomeConfig l) =
         (case map_of claims ''phone_home'' of
            Some (JObject ph) \<Rightarrow>
              (case map_of ph ''url'' of Some (JString s) \<Rightarrow> s | _ \<Rightarrow> [])
          | _ \<Rightarrow> [])
     \<and> IntervalHours (PhoneHomeConfig l) =
         (case map_of claims ''phone_home'' of
            Some (JObject ph) \<Rightarrow>
              (case map_of ph ''interval_hours'' of Some (JNumber x) \<Rightarrow> int_of_float64 x | _ \<Rightarrow> 0)
          | _ \<Rightarrow> 0)
     \<and> (\<forall>v jwt token n ns t0 now.
          ParseWithClaims jwt (keyFunc v) = Inr token \<and> Token_Claims token = claims \<longrightarrow>
            License (Validate v jwt n ns t0 now) = Some l
            \<and> Error (Validate v jwt n ns t0 now) =
                (if ns = Namespace l then None
                 else Some (ErrorString (''namespace mismatch: license is for namespace ''
                        @ [CHR 0x27] @ Namespace l @ [CHR 0x27]
                        @ '' but validator is running in ''
                        @ [CHR 0x27] @ ns @ [CHR 0x27]))))"
proof -
  obtain l where l: "parseLicense claims = Inr l"
    using parseLicense_Inr by blast
  then have p: "l = projr (parseLicense claims)" by simp
  have f1: "Issuer l =
      (case map_of claims ''iss'' of Some (JString s) \<Rightarrow> s | _ \<Rightarrow> [])"
    unfolding p
    by (cases "map_of claims ''iss''" rule: assert_string.cases)
      (simp_all add: parseLicense_def Let_def License_zero_def if_ok_keep [of Issuer])
  have f2: "Subject l =
      (case map_of claims ''sub'' of Some (JString s) \<Rightarrow> s | _ \<Rightarrow> [])"
    unfolding p
    by (cases "map_of claims ''sub''" rule: assert_string.cases)
      (simp_all add: parseLicense_def Let_def License_zero_def if_ok_keep [of Subject])
  have f3: "IssuedAt l =
      (case map_of claims ''iat'' of Some (JNumber x) \<Rightarrow> Unix (int_of_float64 x) 0 | _ \<Rightarrow> - 62135596800000000000)"
    unfolding p
    by (cases "map_of claims ''iat''" rule: assert_float64.cases)
      (simp_all add: parseLicense_def Let_def License_zero_def if_ok_keep [of IssuedAt] Time_zero_def Time_of_internal_def)
  have f4: "ExpiresAt l =
      (case map_of claims ''exp'' of Some (JNumber x) \<Rightarrow> Unix (int_of_float64 x) 0 | _ \<Rightarrow> - 62135596800000000000)"
    unfolding p
    by (cases "map_of claims ''exp''" rule: assert_float64.cases)
      (simp_all add: parseLicense_def Let_def License_zero_def if_ok_keep [of ExpiresAt] Time_zero_def Time_of_internal_def)
  have f5: "NotBefore l =
      (case map_of claims ''nbf'' of Some (JNumber x) \<Rightarrow> Unix (int_of_float64 x) 0 | _ \<Rightarrow> - 62135596800000000000)"
    unfolding p
    by (cases "map_of claims ''nbf''" rule: assert_float64.cases)
      (simp_all add: parseLicense_def Let_def License_zero_def if_ok_keep [of NotBefore] Time_zero_def Time_of_internal_def)
  have f6: "LicenseID l =
      (case map_of claims ''license_id'' of Some (JString s) \<Rightarrow> s | _ \<Rightarrow> [])"
    unfolding p
    by (cases "map_of claims ''license_id''" rule: assert_string.cases)
      (simp_all add: parseLicense_def Let_def License_zero_def if_ok_keep [of LicenseID])
  have f7: "CustomerID l =
      (case map_of claims ''customer_id'' of Some (JString s) \<Rightarrow> s | _ \<Rightarrow> [])"
    unfolding p
    by (cases "map_of claims ''customer_id''" rule: assert_string.cases)
      (simp_all add: parseLicense_def Let_def License_zero_def if_ok_keep [of CustomerID])
  have f8: "CustomerName l =
      (case map_of claims ''customer_name'' of Some (JString s) \<Rightarrow> s | _ \<Rightarrow> [])"
    unfolding p
    by (cases "map_of claims ''customer_name''" rule: assert_string.cases)
      (simp_all add: parseLicense_def Let_def License_zero_def if_ok_keep [of CustomerName])
  have f9: "ProductCode l =
      (case map_of claims ''product_code'' of Some (JString s) \<Rightarrow> s | _ \<Rightarrow> [])"
    unfolding p
    by (cases "map_of claims ''product_code''" rule: assert_string.cases)
      (simp_all add: parseLicense_def Let_def License_zero_def if_ok_keep [of ProductCode])
  have f10: "ProductName l =
      (case map_of claims ''product_name'' of Some (JString s) \<Rightarrow> s | _ \<Rightarrow> [])"
    unfolding p
    by (cases "map_of claims ''product_name''" rule: assert_string.cases)
      (simp_all add: parseLicense_def Let_def License_zero_def if_ok_keep [of ProductName])
  have f11: "TierCode l =
      (case map_of claims ''tier_code'' of Some (JString s) \<Rightarrow> s | _ \<Rightarrow> [])"
    unfolding p
    by (cases "map_of claims ''tier_code''" rule: assert_string.cases)
      (simp_all add: parseLicense_def Let_def License_zero_def if_ok_keep [of TierCode])
  have f12: "TierName l =
      (case map_of claims ''tier_name'' of Some (JString s) \<Rightarrow> s | _ \<Rightarrow> [])"
    unfolding p
    by (cases "map_of claims ''tier_name''" rule: assert_string.cases)
      (simp_all add: parseLicense_def Let_def License_zero_def if_ok_keep [of TierName])
  have f13: "ClusterID l =
      (case map_of claims ''cluster_id'' of Some (JString s) \<Rightarrow> s | _ \<Rightarrow> [])"
    unfolding p
    by (cases "map_of claims ''cluster_id''" rule: assert_string.cases)
      (simp_all add: parseLicense_def Let_def License_zero_def if_ok_keep [of ClusterID])
  have f14: "ClusterName l =
      (case map_of claims ''cluster_name'' of Some (JString s) \<Rightarrow> s | _ \<Rightarrow> [])"
    unfolding p
    by (cases "map_of claims ''cluster_name''" rule: assert_string.cases)
      (simp_all add: parseLicense_def Let_def License_zero_def if_ok_keep [of ClusterName])
  have f15: "Namespace l =
      (case map_of claims ''namespace'' of Some (JString s) \<Rightarrow> s | _ \<Rightarrow> [])"
    unfolding p
    by (cases "map_of claims ''namespace''" rule: assert_string.cases)
      (simp_all add: parseLicense_def Let_def License_zero_def if_ok_keep [of Namespace])
  have f16: "LicensedNodes l =
      (case map_of claims ''licensed_nodes'' of Some (JNumber x) \<Rightarrow> int_of_float64 x | _ \<Rightarrow> 0)"
    unfolding p
    by (cases "map_of claims ''licensed_nodes''" rule: assert_float64.cases)
      (simp_all add: parseLicense_def Let_def License_zero_def if_ok_keep [of LicensedNodes])
  have f17: "MaxNodes l =
      (case map_of claims ''max_nodes'' of Some (JNumber x) \<Rightarrow> int_of_float64 x | _ \<Rightarrow> 0)"
    unfolding p
    by (cases "map_of claims ''max_nodes''" rule: assert_float64.cases)
      (simp_all add: parseLicense_def Let_def License_zero_def if_ok_keep [of MaxNodes])
  have f18: "NodeSelector l =
      (case map_of claims ''node_selector'' of Some (JObject m) \<Rightarrow> Some [(k, s). (k, JString s) \<leftarrow> m] | _ \<Rightarrow> None)"
    unfolding p
    by (cases "map_of claims ''node_selector''" rule: assert_map.cases)
      (simp_all add: parseLicense_def Let_def License_zero_def if_ok_keep [of NodeSelector] string_entries_eq)
  have f19: "Features l =
      (case map_of claims ''features'' of Some (JArray fs) \<Rightarrow> Some [s. JString s \<leftarrow> fs] | _ \<Rightarrow> None)"
    unfolding p
    by (cases "map_of claims ''features''" rule: assert_slice.cases)
      (simp_all add: parseLicense_def Let_def License_zero_def if_ok_keep [of Features] string_elements_eq)
  have f20: "GracePeriodDays l =
      (case map_of claims ''grace_period_days'' of Some (JNumber x) \<Rightarrow> int_of_float64 x | _ \<Rightarrow> 0)"
    unfolding p
    by (cases "map_of claims ''grace_period_days''" rule: assert_float64.cases)
      (simp_all add: parseLicense_def Let_def License_zero_def if_ok_keep [of GracePeriodDays])
  have f21: "WarningDays l =
      (case map_of claims ''warning_days'' of Some (JNumber x) \<Rightarrow> int_of_float64 x | _ \<Rightarrow> 0)"
    unfolding p
    by (cases "map_of claims ''warning_days''" rule: assert_float64.cases)
      (simp_all add: parseLicense_def Let_def License_zero_def if_ok_keep [of WarningDays])
  have h1: "Enabled (PhoneHomeConfig l) =
      (case map_of claims ''phone_home'' of
         Some (JObject ph) \<Rightarrow>
           (case map_of ph ''enabled'' of Some (JBool b) \<Rightarrow> b | _ \<Rightarrow> False)
       | _ \<Rightarrow> False)"
  proof (cases "map_of claims ''phone_home''" rule: assert_map.cases)
    case (1 ph)
    then show ?thesis
      by (cases "map_of ph ''enabled''" rule: assert_bool.cases)
        (simp_all add: p parseLicense_def Let_def License_zero_def
          if_ok_keep [of PhoneHomeConfig] if_ok_keep [of Enabled])
  qed (simp_all add: p parseLicense_def Let_def License_zero_def
      if_ok_keep [of PhoneHomeConfig])
  have h2: "URL (PhoneHomeConfig l) =
      (case map_of claims ''phone_home'' of
         Some (JObject ph) \<Rightarrow>
           (case map_of ph ''url'' of Some (JString s) \<Rightarrow> s | _ \<Rightarrow> [])
       | _ \<Rightarrow> [])"
  proof (cases "map_of claims ''phone_home''" rule: assert_map.cases)
    case (1 ph)
    then show ?thesis
      by (cases "map_of ph ''url''" rule: assert_string.cases)
        (simp_all add: p parseLicense_def Let_def License_zero_def
          if_ok_keep [of PhoneHomeConfig] if_ok_keep [of URL])
  qed (simp_all add: p parseLicense_def Let_def License_zero_def
      if_ok_keep [of PhoneHomeConfig])
  have h3: "IntervalHours (PhoneHomeConfig l) =
      (case map_of claims ''phone_home'' of
         Some (JObject ph) \<Rightarrow>
           (case map_of ph ''interval_hours'' of Some (JNumber x) \<Rightarrow> int_of_float64 x | _ \<Rightarrow> 0)
       | _ \<Rightarrow> 0)"
  proof (cases "map_of claims ''phone_home''" rule: assert_map.cases)
    case (1 ph)
    then show ?thesis
      by (cases "map_of ph ''interval_hours''" rule: assert_float64.cases)
        (simp_all add: p parseLicense_def Let_def License_zero_def
          if_ok_keep [of PhoneHomeConfig] if_ok_keep [of IntervalHours])
  qed (simp_all add: p parseLicense_def Let_def License_zero_def
      if_ok_keep [of PhoneHomeConfig])
  have v: "\<forall>v jwt token n ns t0 now.
          ParseWithClaims jwt (keyFunc v) = Inr token \<and> Token_Claims token = claims \<longrightarrow>
            License (Validate v jwt n ns t0 now) = Some l
            \<and> Error (Validate v jwt n ns t0 now) =
                (if ns = Namespace l then None
                 else Some (ErrorString (''namespace mismatch: license is for namespace ''
                        @ [CHR 0x27] @ Namespace l @ [CHR 0x27]
                        @ '' but validator is running in ''
                        @ [CHR 0x27] @ ns @ [CHR 0x27])))"
  proof (intro allI impI)
    fix v jwt token n ns t0 now
    assume h: "ParseWithClaims jwt (keyFunc v) = Inr token \<and> Token_Claims token = claims"
    then have a: "ParseWithClaims jwt (keyFunc v) = Inr token"
      and b: "parseLicense (Token_Claims token) = Inr l"
      using l by simp_all
    show "License (Validate v jwt n ns t0 now) = Some l
            \<and> Error (Validate v jwt n ns t0 now) =
                (if ns = Namespace l then None
                 else Some (ErrorString (''namespace mismatch: license is for namespace ''
                        @ [CHR 0x27] @ Namespace l @ [CHR 0x27]
                        @ '' but validator is running in ''
                        @ [CHR 0x27] @ ns @ [CHR 0x27])))"
      by (simp add: Validate_Inr [OF a b])
  qed
  show ?thesis
    by (rule exI [of _ l]) (intro conjI l f1 f2 f3 f4 f5 f6 f7 f8 f9 f10 f11 f12 f13 f14 f15 f16 f17 f18 f19 f20 f21 h1 h2 h3 v)
qed

text \<open>
  C9 as stated fails: a verified token whose \<open>licensed_nodes\<close> is the string
  \<open>five\<close> yields a License (for 0 nodes) and no error; with no node observed the
  result is even valid.
\<close>

theorem non_numeric_nodes_counterexample:
  "map_of (sample_claims (JString ''five'') (JNumber 7)) ''licensed_nodes''
     = Some (JString ''five'')
   \<and> License (Validate sample_validator
        (signed_token ''RS512'' sample_key (sample_claims (JString ''five'') (JNumber 7)))
        0 ''prod'' (Unix 1900000000 0) (Unix 1900000000 1)) = Some (sample_license 0 7)
   \<and> Error (Validate sample_validator
        (signed_token ''RS512'' sample_key (sample_claims (JString ''five'') (JNumber 7)))
        0 ''prod'' (Unix 1900000000 0) (Unix 1900000000 1)) = None
   \<and> Valid (Validate sample_validator
        (signed_token ''RS512'' sample_key (sample_claims (JString ''five'') (JNumber 7)))
        0 ''prod'' (Unix 1900000000 0) (Unix 1900000000 1))"
proof -
  have q: "parseLicense (sample_claims (JString ''five'') (JNumber 7)) = Inr (sample_license 0 7)"
    using parse_sample_claims_string [of 7 "''five''"] by simp
  have m: "''RS512'' \<in> set [''RS256'', ''RS384'', ''RS512'']" by simp
  have c: "map_of (sample_claims (JString ''five'') (JNumber 7)) ''licensed_nodes''
     = Some (JString ''five'')"
    by (simp add: sample_claims_def)
  show ?thesis
    unfolding Validate_signed_sample [OF m q] using c by (simp add: Unix_eval)
qed

theorem parseLicense_never_fails_witness:
  "parseLicense (sample_claims (JString ''five'') (JBool True)) = Inr (sample_license 0 0)
   \<and> LicensedNodes (sample_license 0 0) = 0
   \<and> GracePeriodDays (sample_license 0 0) = 0
   \<and> License (Validate sample_validator
        (signed_token ''RS512'' sample_key (sample_claims (JString ''five'') (JBool True)))
        0 ''prod'' (Unix 1900000000 0) (Unix 1900000000 1)) = Some (sample_license 0 0)"
proof -
  from parseLicense_never_fails [of "sample_claims (JString ''five'') (JBool True)"]
  obtain l where l: "parseLicense (sample_claims (JString ''five'') (JBool True)) = Inr l"
    and n: "LicensedNodes l =
         (case map_of (sample_claims (JString ''five'') (JBool True)) ''licensed_nodes'' of
            Some (JNumber x) \<Rightarrow> int_of_float64 x | _ \<Rightarrow> 0)"
    and g: "GracePeriodDays l =
         (case map_of (sample_claims (JString ''five'') (JBool True)) ''grace_period_days'' of
            Some (JNumber x) \<Rightarrow> int_of_float64 x | _ \<Rightarrow> 0)"
    and v: "\<forall>v jwt token n ns t0 now.
          ParseWithClaims jwt (keyFunc v) = Inr token
          \<and> Token_Claims token = sample_claims (JString ''five'') (JBool True) \<longrightarrow>
            License (Validate v jwt n ns t0 now) = Some l
            \<and> Error (Validate v jwt n ns t0 now) =
                (if ns = Namespace l then None
                 else Some (ErrorString (''namespace mismatch: license is for namespace ''
                        @ [CHR 0x27] @ Namespace l @ [CHR 0x27]
                        @ '' but validator is running in ''
                        @ [CHR 0x27] @ ns @ [CHR 0x27])))"
    by blast
  have e: "int_of_float64 2000000000 = 2000000000"
    using int_of_float64_of_int [of 2000000000] by simp
  have q: "parseLicense (sample_claims (JString ''five'') (JBool True)) = Inr (sample_license 0 0)"
    by (simp add: parseLicense_def sample_claims_def sample_license_def Let_def
        License_zero_def e)
  with l have eq: "l = sample_license 0 0" by simp
  have m: "''RS512'' \<in> set [''RS256'', ''RS384'', ''RS512'']" by simp
  from n g have z: "LicensedNodes l = 0" "GracePeriodDays l = 0"
    by (simp_all add: sample_claims_def)
  from v ParseWithClaims_signed_sample [OF m,
      of "sample_claims (JString ''five'') (JBool True)"]
  have "License (Validate sample_validator
        (signed_token ''RS512'' sample_key (sample_claims (JString ''five'') (JBool True)))
        0 ''prod'' (Unix 1900000000 0) (Unix 1900000000 1)) = Some l"
    by simp
  with q z show ?thesis unfolding eq by simp
qed

text \<open>
  C10. If counting the labeled nodes fails during a cycle in which the secret was
  read, \<open>runValidation\<close> goes on and stores the result of \<open>Validate\<close> for an observed
  node count of 0; in that result the node count is 0 and, for every license decoded
  with a licensed node count that is not negative, the capacity check passes.
\<close>

theorem runValidation_counting_outage:
  assumes "secretGet cyc = Inr Data"
    and "map_of Data (LicenseSecretKey (cfg s)) = Some licenseJWT"
    and "nodeList cyc = Inl err"
  shows "currentResult (fst (runValidation s cyc)) =
       Some (Validate (validator s) licenseJWT 0 (LicenseSecretNamespace (cfg s))
               (clock0 cyc) (clock1 cyc))
     \<and> NodeCount (Validate (validator s) licenseJWT 0 (LicenseSecretNamespace (cfg s))
               (clock0 cyc) (clock1 cyc)) = 0
     \<and> (\<forall>l. License (Validate (validator s) licenseJWT 0 (LicenseSecretNamespace (cfg s))
               (clock0 cyc) (clock1 cyc)) = Some l \<and> 0 \<le> LicensedNodes l \<longrightarrow>
           NodeCountValid (Validate (validator s) licenseJWT 0 (LicenseSecretNamespace (cfg s))
               (clock0 cyc) (clock1 cyc)))"
proof (intro conjI allI impI)
  let ?r = "Validate (validator s) licenseJWT 0 (LicenseSecretNamespace (cfg s))
               (clock0 cyc) (clock1 cyc)"
  show "currentResult (fst (runValidation s cyc)) = Some ?r"
    using assms by (simp add: runValidation_def CountLabeledNodes_def Let_def)
  show "NodeCount ?r = 0"
  proof (cases "ParseWithClaims licenseJWT (keyFunc (validator s))")
    case (Inl e)
    show ?thesis by (simp add: Validate_Inl [OF Inl])
  next
    case (Inr token)
    obtain l where l: "parseLicense (Token_Claims token) = Inr l"
      using parseLicense_Inr by blast
    show ?thesis by (simp add: Validate_Inr [OF Inr l])
  qed
  fix l
  assume h: "License ?r = Some l \<and> 0 \<le> LicensedNodes l"
  then have "License ?r = Some l" by simp
  from Validate_License_Some [OF this] obtain token
    where p: "ParseWithClaims licenseJWT (keyFunc (validator s)) = Inr token"
      and l: "parseLicense (Token_Claims token) = Inr l" by blast
  from h show "NodeCountValid ?r" by (simp add: Validate_Inr [OF p l])
qed

theorem runValidation_counting_outage_witness:
  "currentResult (fst (runValidation sample_service outage_cycle)) =
     Some (Validate sample_validator
        (signed_token ''RS512'' sample_key (sample_claims (JNumber 5) (JNumber 7)))
        0 ''prod'' (Unix 1900000000 0) (Unix 1900000000 1))
   \<and> License (Validate sample_validator
        (signed_token ''RS512'' sample_key (sample_claims (JNumber 5) (JNumber 7)))
        0 ''prod'' (Unix 1900000000 0) (Unix 1900000000 1)) = Some (sample_license 5 7)
   \<and> 0 \<le> LicensedNodes (sample_license 5 7)
   \<and> NodeCountValid (Validate sample_validator
        (signed_token ''RS512'' sample_key (sample_claims (JNumber 5) (JNumber 7)))
        0 ''prod'' (Unix 1900000000 0) (Unix 1900000000 1))"
proof -
  have a: "secretGet outage_cycle = Inr [(''license.jwt'',
          signed_token ''RS512'' sample_key (sample_claims (JNumber 5) (JNumber 7)))]"
    by (simp add: outage_cycle_def)
  have b: "map_of [(''license.jwt'',
          signed_token ''RS512'' sample_key (sample_claims (JNumber 5) (JNumber 7)))]
        (LicenseSecretKey (cfg sample_service)) =
      Some (signed_token ''RS512'' sample_key (sample_claims (JNumber 5) (JNumber 7)))"
    by (simp add: sample_service_def sample_config_def)
  have c: "nodeList outage_cycle = Inl (ErrorString ''connection refused'')"
    by (simp add: outage_cycle_def)
  have l: "License (Validate sample_validator
        (signed_token ''RS512'' sample_key (sample_claims (JNumber 5) (JNumber 7)))
        0 ''prod'' (Unix 1900000000 0) (Unix 1900000000 1)) = Some (sample_license 5 7)"
    by (simp add: Validate_sample_5_7)
  have n: "0 \<le> LicensedNodes (sample_license 5 7)"
    by (simp add: sample_license_def)
  have s: "validator sample_service = sample_validator"
    "LicenseSecretNamespace (cfg sample_service) = ''prod''"
    "clock0 outage_cycle = Unix 1900000000 0" "clock1 outage_cycle = Unix 1900000000 1"
    by (simp_all add: sample_service_def sample_config_def outage_cycle_def)
  from runValidation_counting_outage [OF a b c] l n show ?thesis
    unfolding s by blast
qed

end
